theory Spec2Isabelle
  imports Complex_Main
begin

section \<open>Numbers and vectors\<close>

text \<open>
  The program computes with JavaScript numbers. They are modelled as mathematical reals:
  every theorem below is a statement of exact arithmetic, which the doubles of the program
  follow up to rounding. A JavaScript division whose divisor can be zero yields
  \<open>Infinity\<close> or \<open>NaN\<close>, which no real stands for; such a division is \<open>js_div\<close>,
  and a computation that went through one has the outcome \<open>NotFinite\<close>.
\<close>

datatype 'a outcome = NotFinite | Finite 'a

definition js_div :: "real \<Rightarrow> real \<Rightarrow> real outcome" where
  "js_div a b = (if b = 0 then NotFinite else Finite (a / b))"

text \<open>
  The remainder \<open>a % b\<close> of JavaScript takes the sign of the dividend: the quotient is
  truncated towards zero. It is only used with the divisor 1.
\<close>

definition js_trunc :: "real \<Rightarrow> int" where
  "js_trunc a = (if 0 \<le> a then \<lfloor>a\<rfloor> else \<lceil>a\<rceil>)"

definition js_rem :: "real \<Rightarrow> real \<Rightarrow> real" where
  "js_rem a b = a - b * of_int (js_trunc (a / b))"

text \<open>
  \<open>THREE.Vector3\<close> and the methods of it the program calls. The library mutates the
  receiver; the model returns the new vector. \<open>normalize\<close> divides by
  \<open>this.length() || 1\<close>, so the zero vector stays the zero vector.
\<close>

datatype Vector3 = Vector3 (vx: real) (vy: real) (vz: real)

definition add :: "Vector3 \<Rightarrow> Vector3 \<Rightarrow> Vector3" where
  "add a b = Vector3 (vx a + vx b) (vy a + vy b) (vz a + vz b)"

definition sub :: "Vector3 \<Rightarrow> Vector3 \<Rightarrow> Vector3" where
  "sub a b = Vector3 (vx a - vx b) (vy a - vy b) (vz a - vz b)"

definition multiplyScalar :: "Vector3 \<Rightarrow> real \<Rightarrow> Vector3" where
  "multiplyScalar a s = Vector3 (vx a * s) (vy a * s) (vz a * s)"

definition addScaledVector :: "Vector3 \<Rightarrow> Vector3 \<Rightarrow> real \<Rightarrow> Vector3" where
  "addScaledVector a v s = Vector3 (vx a + vx v * s) (vy a + vy v * s) (vz a + vz v * s)"

definition negate :: "Vector3 \<Rightarrow> Vector3" where
  "negate a = Vector3 (- vx a) (- vy a) (- vz a)"

definition dot :: "Vector3 \<Rightarrow> Vector3 \<Rightarrow> real" where
  "dot a b = vx a * vx b + vy a * vy b + vz a * vz b"

definition crossVectors :: "Vector3 \<Rightarrow> Vector3 \<Rightarrow> Vector3" where
  "crossVectors a b =
     Vector3 (vy a * vz b - vz a * vy b) (vz a * vx b - vx a * vz b) (vx a * vy b - vy a * vx b)"

definition lengthSq :: "Vector3 \<Rightarrow> real" where
  "lengthSq a = vx a * vx a + vy a * vy a + vz a * vz a"

definition vlength :: "Vector3 \<Rightarrow> real" where
  "vlength a = sqrt (lengthSq a)"

definition normalize :: "Vector3 \<Rightarrow> Vector3" where
  "normalize a = (let l = vlength a in multiplyScalar a (1 / (if l = 0 then 1 else l)))"

definition distanceTo :: "Vector3 \<Rightarrow> Vector3 \<Rightarrow> real" where
  "distanceTo a b = vlength (sub a b)"

definition zero3 :: Vector3 where
  "zero3 = Vector3 0 0 0"

text \<open>
  \<open>THREE.Quaternion.setFromAxisAngle\<close> and \<open>Vector3.applyQuaternion\<close> (the product
  \<open>q v q*\<close> written out), and \<open>Vector3.applyAxisAngle\<close>, which composes them.
\<close>

datatype Quaternion = Quaternion (qx: real) (qy: real) (qz: real) (qw: real)

definition setFromAxisAngle :: "Vector3 \<Rightarrow> real \<Rightarrow> Quaternion" where
  "setFromAxisAngle axis angle =
     (let halfAngle = angle / 2; s = sin halfAngle
      in Quaternion (vx axis * s) (vy axis * s) (vz axis * s) (cos halfAngle))"

definition applyQuaternion :: "Vector3 \<Rightarrow> Quaternion \<Rightarrow> Vector3" where
  "applyQuaternion v q =
     (let ix = qw q * vx v + qy q * vz v - qz q * vy v;
          iy = qw q * vy v + qz q * vx v - qx q * vz v;
          iz = qw q * vz v + qx q * vy v - qy q * vx v;
          iw = - qx q * vx v - qy q * vy v - qz q * vz v
      in Vector3 (ix * qw q + iw * - qx q + iy * - qz q - iz * - qy q)
                 (iy * qw q + iw * - qy q + iz * - qx q - ix * - qz q)
                 (iz * qw q + iw * - qz q + ix * - qy q - iy * - qx q))"

definition applyAxisAngle :: "Vector3 \<Rightarrow> Vector3 \<Rightarrow> real \<Rightarrow> Vector3" where
  "applyAxisAngle v axis angle = applyQuaternion v (setFromAxisAngle axis angle)"

section \<open>Analytic loops\<close>

text \<open>
  \<open>LoopFrame\<close> and \<open>sampleLoopAnalytically\<close> of the hybrid track (the same text in the
  car, the camera and the rail builder; the rail builder's also returns the frame's
  \<open>right\<close> as \<open>normal\<close>). The sample's \<open>up\<close> is the field \<open>sup\<close> here, the frame's
  \<open>up\<close> keeps its name.
\<close>

record LoopFrame =
  entryPos :: Vector3
  forward :: Vector3
  up :: Vector3
  right :: Vector3
  radius :: real

record Sample =
  point :: Vector3
  tangent :: Vector3
  sup :: Vector3
  inLoop :: bool

definition sampleLoopAnalytically :: "'a LoopFrame_scheme \<Rightarrow> real \<Rightarrow> Sample" where
  "sampleLoopAnalytically frame theta =
     \<lparr> point = Vector3
         (vx (entryPos frame) + vx (forward frame) * sin theta * radius frame
            + vx (up frame) * (1 - cos theta) * radius frame)
         (vy (entryPos frame) + vy (forward frame) * sin theta * radius frame
            + vy (up frame) * (1 - cos theta) * radius frame)
         (vz (entryPos frame) + vz (forward frame) * sin theta * radius frame
            + vz (up frame) * (1 - cos theta) * radius frame),
       tangent = normalize (addScaledVector (addScaledVector zero3 (forward frame) (cos theta))
                   (up frame) (sin theta)),
       sup = normalize (addScaledVector (addScaledVector zero3 (forward frame) (- sin theta))
                   (up frame) (cos theta)),
       inLoop = True \<rparr>"

text \<open>
  \<open>BarrelRollFrame\<close> and \<open>sampleVerticalLoopAnalytically\<close> of the rail builder
  (Track.tsx): the loop parameter \<open>t\<close> runs from 0 to 1 and the angle is eased.
\<close>

record BarrelRollFrame = LoopFrame +
  pitch :: real

definition easedTheta :: "real \<Rightarrow> real" where
  "easedTheta t = (2 * pi) * (t - sin ((2 * pi) * t) / (2 * pi))"

definition dThetaDt :: "real \<Rightarrow> real" where
  "dThetaDt t = (2 * pi) * (1 - cos ((2 * pi) * t))"

record VerticalLoopSample =
  vpoint :: Vector3
  vtangent :: Vector3
  vup :: Vector3
  vnormal :: Vector3

definition sampleVerticalLoopAnalytically :: "BarrelRollFrame \<Rightarrow> real \<Rightarrow> VerticalLoopSample" where
  "sampleVerticalLoopAnalytically frame t =
     (let corkscrewOffset = radius frame * 0.4;
          theta = easedTheta t;
          d = dThetaDt t
      in \<lparr> vpoint =
             addScaledVector
               (addScaledVector
                  (addScaledVector (entryPos frame) (forward frame)
                     (pitch frame * t + radius frame * sin theta))
                  (up frame) (radius frame * (1 - cos theta)))
               (right frame) (corkscrewOffset * sin theta),
           vtangent =
             normalize
               (addScaledVector
                  (addScaledVector
                     (multiplyScalar (forward frame) (pitch frame + radius frame * cos theta * d))
                     (up frame) (radius frame * sin theta * d))
                  (right frame) (corkscrewOffset * cos theta * d)),
           vup = normalize (addScaledVector (addScaledVector zero3 (up frame) (cos theta))
                   (forward frame) (- sin theta)),
           vnormal = right frame \<rparr>)"

section \<open>The store\<close>

text \<open>
  The zustand store of useRollerCoaster.tsx. \<open>set\<close> merges the fields it is given into
  the state and leaves the others; an action is a function from the state to the new state.
  The module-level \<open>pointCounter\<close> is threaded through the actions that read it. The
  \<open>id\<close> of a track point is the field \<open>point_id\<close>.
\<close>

datatype CoasterMode = build | ride | preview

record LoopMetadata = LoopFrame +
  theta :: real

record TrackPoint =
  point_id :: string
  position :: Vector3
  tilt :: real
  loopMeta :: "LoopMetadata option"

record RollerCoasterState =
  mode :: CoasterMode
  trackPoints :: "TrackPoint list"
  selectedPointId :: "string option"
  rideProgress :: real
  isRiding :: bool
  rideSpeed :: real
  isDraggingPoint :: bool
  isAddingPoints :: bool
  isLooped :: bool
  hasChainLift :: bool
  showWoodSupports :: bool
  isNightMode :: bool
  cameraTarget :: "Vector3 option"

definition setRideProgress :: "real \<Rightarrow> RollerCoasterState \<Rightarrow> RollerCoasterState" where
  "setRideProgress progress state = state\<lparr>rideProgress := progress\<rparr>"

definition startRide :: "RollerCoasterState \<Rightarrow> RollerCoasterState" where
  "startRide state =
     (if length (trackPoints state) \<ge> 2
      then state\<lparr>mode := ride, isRiding := True, rideProgress := 0\<rparr>
      else state)"

definition stopRide :: "RollerCoasterState \<Rightarrow> RollerCoasterState" where
  "stopRide state = state\<lparr>mode := build, isRiding := False, rideProgress := 0\<rparr>"

definition initialState :: RollerCoasterState where
  "initialState =
     \<lparr> mode = build, trackPoints = [], selectedPointId = None, rideProgress = 0,
       isRiding = False, rideSpeed = 1.0, isDraggingPoint = False, isAddingPoints = True,
       isLooped = False, hasChainLift = True, showWoodSupports = False, isNightMode = False,
       cameraTarget = None \<rparr>"

text \<open>Decimal digits of a counter, for the template string \<open>point-${++pointCounter}\<close>.\<close>

definition digit :: "nat \<Rightarrow> char" where
  "digit d =
     (if d = 0 then CHR ''0'' else if d = 1 then CHR ''1'' else if d = 2 then CHR ''2''
      else if d = 3 then CHR ''3'' else if d = 4 then CHR ''4'' else if d = 5 then CHR ''5''
      else if d = 6 then CHR ''6'' else if d = 7 then CHR ''7'' else if d = 8 then CHR ''8''
      else CHR ''9'')"

fun decimal :: "nat \<Rightarrow> string" where
  "decimal n = (if n < 10 then [digit n] else decimal (n div 10) @ [digit (n mod 10)])"

definition pointName :: "nat \<Rightarrow> string" where
  "pointName n = ''point-'' @ decimal n"

text \<open>
  One \<open>push\<close> of a new point: the counter is incremented first and names the point.
  The pair is the counter and the array being filled.
\<close>

definition pushPoint ::
  "Vector3 \<Rightarrow> LoopMetadata option \<Rightarrow> nat \<times> TrackPoint list \<Rightarrow> nat \<times> TrackPoint list" where
  "pushPoint pos meta acc =
     (case acc of (counter, points) \<Rightarrow>
        (counter + 1,
         points @ [\<lparr>point_id = pointName (counter + 1), position = pos, tilt = 0, loopMeta = meta\<rparr>]))"

definition addTrackPoint :: "Vector3 \<Rightarrow> nat \<times> RollerCoasterState \<Rightarrow> nat \<times> RollerCoasterState" where
  "addTrackPoint pos cs =
     (case cs of (pointCounter, state) \<Rightarrow>
        (case pushPoint pos None (pointCounter, trackPoints state) of
           (pointCounter', points) \<Rightarrow> (pointCounter', state\<lparr>trackPoints := points\<rparr>)))"

definition findIndex :: "('a \<Rightarrow> bool) \<Rightarrow> 'a list \<Rightarrow> nat option" where
  "findIndex P xs = (if \<exists>x \<in> set xs. P x then Some (length (takeWhile (\<lambda>x. \<not> P x) xs)) else None)"

text \<open>An array read \<open>xs[i]\<close>, which is \<open>undefined\<close> past the end.\<close>

definition at_index :: "'a list \<Rightarrow> nat \<Rightarrow> 'a option" where
  "at_index xs i = (if i < length xs then Some (xs ! i) else None)"

subsection \<open>createLoopAtPoint, first version: a ring of control points, later points shifted\<close>

definition loopDirection :: "TrackPoint list \<Rightarrow> nat \<Rightarrow> Vector3 \<Rightarrow> Vector3" where
  "loopDirection points pointIndex pos =
     (if pointIndex > 0
      then (let prevPoint = points ! (pointIndex - 1);
                d = normalize (sub pos (position prevPoint));
                d0 = Vector3 (vx d) 0 (vz d)
            in if vlength d0 < 0.1 then Vector3 1 0 0 else normalize d0)
      else Vector3 1 0 0)"

definition ringPoint :: "Vector3 \<Rightarrow> Vector3 \<Rightarrow> nat \<Rightarrow> Vector3" where
  "ringPoint pos direction i =
     (let loopRadius = 10; numLoopPoints = 16; leadInDist = 5;
          loopCenterForward = leadInDist + loopRadius;
          loopCenterX = vx pos + vx direction * loopCenterForward;
          loopCenterZ = vz pos + vz direction * loopCenterForward;
          loopCenterY = vy pos + loopRadius;
          angle = - pi / 2 + (real i / numLoopPoints) * pi * 2;
          forwardOffset = cos angle * loopRadius;
          heightOffset = sin angle * loopRadius
      in Vector3 (loopCenterX + vx direction * forwardOffset)
                 (loopCenterY + heightOffset)
                 (loopCenterZ + vz direction * forwardOffset))"

definition createLoopAtPoint ::
  "string \<Rightarrow> nat \<times> RollerCoasterState \<Rightarrow> nat \<times> RollerCoasterState" where
  "createLoopAtPoint ident cs =
     (case cs of (pointCounter, state) \<Rightarrow>
      (case findIndex (\<lambda>p. point_id p = ident) (trackPoints state) of
         None \<Rightarrow> (pointCounter, state)
       | Some pointIndex \<Rightarrow>
           (let basePoint = trackPoints state ! pointIndex;
                pos = position basePoint;
                direction = loopDirection (trackPoints state) pointIndex pos;
                loopRadius = 10;
                leadInDist = 5;
                leadOutDist = 8;
                totalLoopLength = leadInDist + (loopRadius * 2) + leadOutDist;
                shiftedPoints =
                  map (\<lambda>p. p\<lparr>position :=
                         Vector3 (vx (position p) + vx direction * totalLoopLength)
                                 (vy (position p))
                                 (vz (position p) + vz direction * totalLoopLength)\<rparr>)
                      (drop (pointIndex + 1) (trackPoints state));
                a1 = pushPoint (Vector3 (vx pos + vx direction * 2) (vy pos + 1)
                                  (vz pos + vz direction * 2)) None (pointCounter, []);
                a2 = pushPoint (Vector3 (vx pos + vx direction * leadInDist) (vy pos + 2)
                                  (vz pos + vz direction * leadInDist)) None a1;
                a3 = fold (\<lambda>i. pushPoint (ringPoint pos direction i) None) [1 ..< 16] a2;
                exitStart = leadInDist + loopRadius * 2;
                a4 = pushPoint (Vector3 (vx pos + vx direction * (exitStart + 2)) (vy pos + 2)
                                  (vz pos + vz direction * (exitStart + 2))) None a3;
                a5 = pushPoint (Vector3 (vx pos + vx direction * (exitStart + leadOutDist - 2))
                                  (vy pos + 1)
                                  (vz pos + vz direction * (exitStart + leadOutDist - 2))) None a4;
                a6 = pushPoint (Vector3 (vx pos + vx direction * totalLoopLength) (vy pos)
                                  (vz pos + vz direction * totalLoopLength)) None a5;
                newTrackPoints = take (pointIndex + 1) (trackPoints state) @ snd a6 @ shiftedPoints
            in (fst a6, state\<lparr>trackPoints := newTrackPoints\<rparr>))))"

subsection \<open>createLoopAtPoint, second version: a helix with Hermite transitions\<close>

text \<open>
  The constants of \<open>@/lib/config/scale\<close> are not part of the sources; they are the fields
  of a configuration the definitions take as a parameter.
\<close>

record ScaleConfig =
  CHAIN_SPEED :: real
  MIN_RIDE_SPEED :: real
  GRAVITY_SCALE :: real
  LOOP_RADIUS :: real
  HELIX_SEPARATION :: real
  LOOP_POINTS_COUNT :: nat
  EXIT_SEPARATION :: real
  FORWARD_SEPARATION :: real

text \<open>A configuration for the examples below; its numbers are not the program's.\<close>

definition exampleConfig :: ScaleConfig where
  "exampleConfig =
     \<lparr> CHAIN_SPEED = 1, MIN_RIDE_SPEED = 1, GRAVITY_SCALE = 1, LOOP_RADIUS = 10,
       HELIX_SEPARATION = 2, LOOP_POINTS_COUNT = 16, EXIT_SEPARATION = 2,
       FORWARD_SEPARATION = 2 \<rparr>"

datatype js_error = TypeError

definition hermite ::
  "real \<Rightarrow> Vector3 \<Rightarrow> Vector3 \<Rightarrow> Vector3 \<Rightarrow> Vector3 \<Rightarrow> real \<Rightarrow> Vector3" where
  "hermite t p0 t0 p1 t1 scale =
     (let t2 = t * t; t3 = t2 * t;
          h00 = 2 * t3 - 3 * t2 + 1;
          h10 = t3 - 2 * t2 + t;
          h01 = - 2 * t3 + 3 * t2;
          h11 = t3 - t2
      in addScaledVector
           (addScaledVector
              (addScaledVector (addScaledVector zero3 p0 h00) t0 (h10 * scale))
              p1 h01)
           t1 (h11 * scale))"

definition helixForward :: "TrackPoint list \<Rightarrow> nat \<Rightarrow> Vector3 \<Rightarrow> Vector3" where
  "helixForward points pointIndex entryPos' =
     (if pointIndex > 0
      then (let prevPoint = points ! (pointIndex - 1);
                f = sub entryPos' (position prevPoint);
                f0 = Vector3 (vx f) 0 (vz f)
            in normalize (if vlength f0 < 0.1 then Vector3 1 0 0 else f0))
      else Vector3 1 0 0)"

definition approachPoints ::
  "ScaleConfig \<Rightarrow> TrackPoint list \<Rightarrow> nat \<Rightarrow> Vector3 \<Rightarrow> Vector3 \<Rightarrow> nat \<Rightarrow> nat \<times> TrackPoint list" where
  "approachPoints cfg points pointIndex entryPos' forward' pointCounter =
     (if pointIndex > 0
      then (let prevPos = position (points ! (pointIndex - 1));
                legacyDir1 =
                  (if pointIndex > 1
                   then normalize (sub prevPos (position (points ! (pointIndex - 2))))
                   else normalize (sub entryPos' prevPos));
                legacyDir = normalize (Vector3 (vx legacyDir1) 0 (vz legacyDir1));
                entryAnchor = sub entryPos' (multiplyScalar forward' (LOOP_RADIUS cfg * 0.3));
                dist1 = distanceTo prevPos entryAnchor;
                dist2 = distanceTo entryAnchor entryPos';
                a1 = pushPoint (hermite 0.5 prevPos legacyDir entryAnchor forward' (dist1 * 0.5))
                       None (pointCounter, [])
            in pushPoint (hermite 0.5 entryAnchor forward' entryPos' forward' (dist2 * 0.5)) None a1)
      else (pointCounter, []))"

definition helixPoint ::
  "ScaleConfig \<Rightarrow> Vector3 \<Rightarrow> Vector3 \<Rightarrow> Vector3 \<Rightarrow> nat \<Rightarrow> nat \<times> TrackPoint list
     \<Rightarrow> nat \<times> TrackPoint list" where
  "helixPoint cfg entryPos' forward' right' i acc =
     (let t = real i / real (LOOP_POINTS_COUNT cfg);
          th = t * pi * 2;
          forwardOffset = sin th * LOOP_RADIUS cfg;
          verticalOffset = (1 - cos th) * LOOP_RADIUS cfg;
          lateralOffset = t * HELIX_SEPARATION cfg
      in pushPoint
           (Vector3 (vx entryPos' + vx forward' * forwardOffset + vx right' * lateralOffset)
                    (vy entryPos' + verticalOffset)
                    (vz entryPos' + vz forward' * forwardOffset + vz right' * lateralOffset))
           (Some \<lparr>entryPos = entryPos', forward = forward', up = Vector3 0 1 0, right = right',
                   radius = LOOP_RADIUS cfg, theta = th\<rparr>)
           acc)"

definition transitionPoints ::
  "TrackPoint list \<Rightarrow> nat \<Rightarrow> Vector3 \<Rightarrow> Vector3 \<Rightarrow> nat \<Rightarrow> nat \<times> TrackPoint list" where
  "transitionPoints points pointIndex forward' offsetLoopExit pointCounter =
     (let a1 = pushPoint offsetLoopExit None (pointCounter, [])
      in case at_index points (pointIndex + 1) of
           None \<Rightarrow> a1
         | Some targetPoint \<Rightarrow>
             (let targetPos = position targetPoint;
                  legacyDir =
                    (case at_index points (pointIndex + 2) of
                       Some nextNextPoint \<Rightarrow> normalize (sub (position nextNextPoint) targetPos)
                     | None \<Rightarrow> normalize (sub targetPos offsetLoopExit));
                  dist = distanceTo offsetLoopExit targetPos;
                  scale = dist * 0.4;
                  blendPoint = hermite 0.5 offsetLoopExit forward' targetPos legacyDir scale
              in pushPoint blendPoint None a1))"

definition createLoopAtPoint_helix ::
  "ScaleConfig \<Rightarrow> string \<Rightarrow> nat \<times> RollerCoasterState \<Rightarrow> js_error + nat \<times> RollerCoasterState" where
  "createLoopAtPoint_helix cfg ident cs =
     (case cs of (pointCounter, state) \<Rightarrow>
      (case findIndex (\<lambda>p. point_id p = ident) (trackPoints state) of
         None \<Rightarrow> Inr (pointCounter, state)
       | Some pointIndex \<Rightarrow>
           (let entryPoint = trackPoints state ! pointIndex;
                entryPos' = position entryPoint;
                forward' = helixForward (trackPoints state) pointIndex entryPos';
                right' = normalize (crossVectors forward' (Vector3 0 1 0));
                ap = approachPoints cfg (trackPoints state) pointIndex entryPos' forward' pointCounter;
                lp = fold (helixPoint cfg entryPos' forward' right')
                       [1 ..< LOOP_POINTS_COUNT cfg + 1] (fst ap, [])
            in case snd lp of
                 [] \<Rightarrow> Inl TypeError
               | _ # _ \<Rightarrow>
                   (let loopExit = position (last (snd lp));
                        offsetLoopExit =
                          add (add loopExit (multiplyScalar forward' (FORWARD_SEPARATION cfg)))
                            (multiplyScalar right' (EXIT_SEPARATION cfg));
                        tp = transitionPoints (trackPoints state) pointIndex forward' offsetLoopExit
                               (fst lp);
                        skipCount = 1;
                        newTrackPoints =
                          take pointIndex (trackPoints state) @ snd ap @ [entryPoint] @ snd lp
                            @ snd tp @ drop (pointIndex + 1 + skipCount) (trackPoints state)
                    in Inr (fst tp, state\<lparr>trackPoints := newTrackPoints\<rparr>)))))"

section \<open>The curve and the section table\<close>

text \<open>
  \<open>THREE.CatmullRomCurve3\<close> is a class of the three.js library. Of a curve the program
  calls \<open>getPoint\<close>, \<open>getTangent\<close> and \<open>getLength\<close>; a curve is the record of the
  three, and the constructor is a parameter of \<open>getTrackCurve\<close>.
\<close>

record Curve =
  getPoint :: "real \<Rightarrow> Vector3"
  getTangent :: "real \<Rightarrow> Vector3"
  getLength :: real

definition getTrackCurve ::
  "(Vector3 list \<Rightarrow> bool \<Rightarrow> Curve) \<Rightarrow> TrackPoint list \<Rightarrow> bool \<Rightarrow> Curve option" where
  "getTrackCurve catmullRom points looped =
     (if length points < 2 then None else Some (catmullRom (map position points) looped))"

datatype SectionType = spline | loop

record TrackSection =
  stype :: SectionType
  startProgress :: real
  endProgress :: real
  arcLength :: real
  loopFrame :: "LoopFrame option"
  splineStartT :: "real option"
  splineEndT :: "real option"
  pointIndex :: "nat option"

text \<open>
  \<open>sampleHybridTrack\<close> (the camera's; the car's is the same without \<open>inLoop\<close>). The
  result \<open>Finite None\<close> is \<open>null\<close>. The division for \<open>localT\<close> is only evaluated on the
  two branches that use it.
\<close>

definition clampProgress :: "real \<Rightarrow> real" where
  "clampProgress progress = max 0 (min progress 0.9999)"

definition findSection :: "real \<Rightarrow> TrackSection list \<Rightarrow> TrackSection" where
  "findSection progress sections =
     (case find (\<lambda>s. progress \<ge> startProgress s \<and> progress < endProgress s) sections of
        Some s \<Rightarrow> s
      | None \<Rightarrow> last sections)"

definition worldUpFor :: "Vector3 \<Rightarrow> Vector3" where
  "worldUpFor tangent' =
     (let up0 = Vector3 0 1 0;
          up1 = sub up0 (multiplyScalar tangent' (dot up0 tangent'))
      in if lengthSq up1 > 0.001 then normalize up1
         else (let up2 = Vector3 1 0 0
               in normalize (sub up2 (multiplyScalar tangent' (dot up2 tangent')))))"

definition sampleHybridTrack :: "real \<Rightarrow> TrackSection list \<Rightarrow> Curve \<Rightarrow> Sample option outcome" where
  "sampleHybridTrack progress0 sections spline' =
     (if sections = [] then Finite None
      else
        (let progress = clampProgress progress0;
             section = findSection progress sections;
             localT = js_div (progress - startProgress section)
                        (endProgress section - startProgress section)
         in if stype section = loop \<and> loopFrame section \<noteq> None
            then map_outcome
                   (\<lambda>lt. Some (sampleLoopAnalytically (the (loopFrame section)) (lt * pi * 2)))
                   localT
            else if splineStartT section \<noteq> None \<and> splineEndT section \<noteq> None
            then map_outcome
                   (\<lambda>lt.
                      let splineT = the (splineStartT section)
                            + lt * (the (splineEndT section) - the (splineStartT section));
                          tangent' = normalize (getTangent spline' splineT)
                      in Some \<lparr> point = getPoint spline' splineT, tangent = tangent',
                                sup = worldUpFor tangent', inLoop = False \<rparr>)
                   localT
            else Finite None))"

subsection \<open>Building the table\<close>

text \<open>
  \<open>LoopSegment\<close> is declared in the store of the hybrid track; the builders read its
  \<open>entryPointId\<close> and \<open>radius\<close> (and the rail builder its \<open>pitch\<close>).
\<close>

record LoopSegment =
  entryPointId :: string
  seg_radius :: real
  seg_pitch :: real

definition loopMapOf :: "LoopSegment list \<Rightarrow> string \<Rightarrow> LoopSegment option" where
  "loopMapOf segs = fold (\<lambda>seg m. m(entryPointId seg \<mapsto> seg)) segs Map.empty"

definition transportAlong :: "Vector3 \<Rightarrow> Vector3 \<Rightarrow> Vector3 \<Rightarrow> Vector3" where
  "transportAlong prevTangent prevUp forward' =
     (let d = max (- 1) (min 1 (dot prevTangent forward'))
      in if d > 0.9999 then prevUp
         else if d < - 0.9999 then prevUp
         else (let axis = crossVectors prevTangent forward'
               in if vlength axis > 0.0001
                  then applyQuaternion prevUp (setFromAxisAngle (normalize axis) (arccos d))
                  else prevUp))"

definition computeLoopFrame :: "Curve \<Rightarrow> real \<Rightarrow> Vector3 \<Rightarrow> Vector3 \<Rightarrow> real \<Rightarrow> LoopFrame" where
  "computeLoopFrame spline' splineT prevTangent prevUp radius' =
     (let entryPos' = getPoint spline' splineT;
          forward' = normalize (getTangent spline' splineT);
          entryUp0 = transportAlong prevTangent prevUp forward';
          entryUp1 = sub entryUp0 (multiplyScalar forward' (dot entryUp0 forward'));
          entryUp =
            (if vlength entryUp1 > 0.001 then normalize entryUp1
             else (let w = Vector3 0 1 0
                   in normalize (sub w (multiplyScalar forward' (dot w forward')))));
          right' = normalize (crossVectors forward' entryUp)
      in \<lparr> entryPos = entryPos', forward = forward', up = entryUp, right = right',
           radius = radius' \<rparr>)"

record BuildState =
  sections :: "TrackSection list"
  accumulatedLength :: real
  prevTangent :: Vector3
  prevUp :: Vector3

definition initialUp :: "Vector3 \<Rightarrow> Vector3" where
  "initialUp tangent0 =
     (let up0 = Vector3 0 1 0;
          up1 = sub up0 (multiplyScalar tangent0 (dot up0 tangent0));
          up2 = (if vlength up1 < 0.01
                 then (let e = Vector3 1 0 0 in sub e (multiplyScalar tangent0 (dot e tangent0)))
                 else up1)
      in normalize up2)"

definition segmentLength :: "Curve \<Rightarrow> real \<Rightarrow> real \<Rightarrow> real" where
  "segmentLength curve splineStartT' splineEndT' =
     fold (\<lambda>s len.
             let subSamples = 10;
                 t1 = splineStartT' + (real s / subSamples) * (splineEndT' - splineStartT');
                 t2 = splineStartT' + ((real s + 1) / subSamples) * (splineEndT' - splineStartT')
             in len + distanceTo (getPoint curve t1) (getPoint curve t2))
          [0 ..< 10] 0"

definition loopStep ::
  "Curve \<Rightarrow> (string \<Rightarrow> LoopSegment option) \<Rightarrow> TrackPoint list \<Rightarrow> nat \<Rightarrow> nat \<Rightarrow> BuildState
     \<Rightarrow> BuildState" where
  "loopStep curve loopMap points totalSplineSegments i st =
     (case loopMap (point_id (points ! i)) of
        None \<Rightarrow> st
      | Some loopSeg \<Rightarrow>
          (let splineT = real i / real totalSplineSegments;
               frame = computeLoopFrame curve splineT (prevTangent st) (prevUp st) (seg_radius loopSeg);
               loopArcLength = 2 * pi * seg_radius loopSeg;
               exitSample = sampleLoopAnalytically frame (pi * 2)
           in st\<lparr> sections := sections st @
                      [\<lparr> stype = loop, startProgress = 0, endProgress = 0,
                         arcLength = loopArcLength, loopFrame = Some frame,
                         splineStartT = None, splineEndT = None, pointIndex = Some i \<rparr>],
                   accumulatedLength := accumulatedLength st + loopArcLength,
                   prevTangent := tangent exitSample,
                   prevUp := sup exitSample \<rparr>))"

definition splineStep :: "Curve \<Rightarrow> nat \<Rightarrow> nat \<Rightarrow> BuildState \<Rightarrow> BuildState" where
  "splineStep curve totalSplineSegments i st =
     (let splineStartT' = real i / real totalSplineSegments;
          splineEndT' = (real i + 1) / real totalSplineSegments;
          len = segmentLength curve splineStartT' splineEndT';
          endTangent = normalize (getTangent curve splineEndT');
          d = max (- 1) (min 1 (dot (prevTangent st) endTangent));
          up1 = (if d < 0.9999 \<and> d > - 0.9999
                 then (let axis = crossVectors (prevTangent st) endTangent
                       in if vlength axis > 0.0001
                          then applyQuaternion (prevUp st)
                                 (setFromAxisAngle (normalize axis) (arccos d))
                          else prevUp st)
                 else prevUp st);
          up2 = sub up1 (multiplyScalar endTangent (dot up1 endTangent));
          up3 = (if vlength up2 > 0.001 then normalize up2 else up2)
      in st\<lparr> sections := sections st @
                 [\<lparr> stype = spline, startProgress = 0, endProgress = 0, arcLength = len,
                    loopFrame = None, splineStartT = Some splineStartT',
                    splineEndT = Some splineEndT', pointIndex = Some i \<rparr>],
              accumulatedLength := accumulatedLength st + len,
              prevTangent := endTangent,
              prevUp := up3 \<rparr>)"

definition buildStep ::
  "Curve \<Rightarrow> (string \<Rightarrow> LoopSegment option) \<Rightarrow> TrackPoint list \<Rightarrow> bool \<Rightarrow> nat \<Rightarrow> BuildState
     \<Rightarrow> BuildState" where
  "buildStep curve loopMap points looped i st =
     (let numPoints = length points;
          totalSplineSegments = (if looped then numPoints else numPoints - 1);
          st1 = loopStep curve loopMap points totalSplineSegments i st
      in if i \<ge> numPoints - 1 \<and> \<not> looped then st1
         else splineStep curve totalSplineSegments i st1)"

text \<open>
  The normalisation pass: \<open>runningLength / accumulatedLength\<close> before and after each
  section's own length.
\<close>

fun normalizeSections :: "real \<Rightarrow> real \<Rightarrow> TrackSection list \<Rightarrow> TrackSection list outcome" where
  "normalizeSections totalLen runningLength [] = Finite []"
| "normalizeSections totalLen runningLength (s # rest) =
     (case js_div runningLength totalLen of
        NotFinite \<Rightarrow> NotFinite
      | Finite a \<Rightarrow>
          (case js_div (runningLength + arcLength s) totalLen of
             NotFinite \<Rightarrow> NotFinite
           | Finite b \<Rightarrow>
               (case normalizeSections totalLen (runningLength + arcLength s) rest of
                  NotFinite \<Rightarrow> NotFinite
                | Finite rest' \<Rightarrow> Finite (s\<lparr>startProgress := a, endProgress := b\<rparr> # rest'))))"

text \<open>
  The \<open>useMemo\<close> that builds the table, up to the normalisation (the car's and the
  camera's are the same; the car's sections carry no \<open>pointIndex\<close>). The result is the table
  and \<open>totalArcLength\<close>. The camera's scan for \<open>firstPeakProgress\<close> that follows is not
  part of the model: the tick takes that number as an argument.
\<close>

definition buildRaw ::
  "Curve \<Rightarrow> TrackPoint list \<Rightarrow> LoopSegment list \<Rightarrow> bool \<Rightarrow> BuildState" where
  "buildRaw curve points loopSegments looped =
     (let loopMap = loopMapOf loopSegments;
          tangent0 = normalize (getTangent curve 0);
          st0 = \<lparr> sections = [], accumulatedLength = 0, prevTangent = tangent0,
                  prevUp = initialUp tangent0 \<rparr>
      in fold (buildStep curve loopMap points looped) [0 ..< length points] st0)"

definition buildSections ::
  "(Vector3 list \<Rightarrow> bool \<Rightarrow> Curve) \<Rightarrow> TrackPoint list \<Rightarrow> LoopSegment list \<Rightarrow> bool
     \<Rightarrow> (TrackSection list \<times> real) outcome" where
  "buildSections catmullRom points loopSegments looped =
     (if length points < 2 then Finite ([], 0)
      else
        (case getTrackCurve catmullRom points looped of
           None \<Rightarrow> Finite ([], 0)
         | Some curve \<Rightarrow>
             (let st = buildRaw curve points loopSegments looped
              in map_outcome (\<lambda>secs. (secs, accumulatedLength st))
                   (normalizeSections (accumulatedLength st) 0 (sections st)))))"

text \<open>
  What the invariant of the table says: each section starts where the one before it ends.
\<close>

fun contiguous :: "TrackSection list \<Rightarrow> bool" where
  "contiguous (a # b # rest) = (endProgress a = startProgress b \<and> contiguous (b # rest))"
| "contiguous _ = True"

text \<open>
  The curve three.js builds through the two points of an open track is the chord between
  them: with two points the Catmull-Rom segment has the chord as its tangent at both ends,
  and the cubic is linear. \<open>chordCurve\<close> is that curve, from the first point of a list
  to its last; the examples use it as the curve constructor on two-point tracks.
\<close>

definition chordCurve :: "Vector3 list \<Rightarrow> bool \<Rightarrow> Curve" where
  "chordCurve points looped =
     \<lparr> getPoint = (\<lambda>t. add (hd points) (multiplyScalar (sub (last points) (hd points)) t)),
       getTangent = (\<lambda>t. normalize (sub (last points) (hd points))),
       getLength = distanceTo (hd points) (last points) \<rparr>"

section \<open>The ride camera\<close>

text \<open>
  The per-frame callback of \<open>RideCamera\<close>, in its two versions: the spline camera
  (RideCamera.tsx), which rides the Catmull-Rom curve, and the hybrid camera, which rides the
  section table. A callback takes the store's state and the component's refs and returns
  both. The memoised values (\<open>firstPeakT\<close>, or \<open>sections\<close>, \<open>totalArcLength\<close> and
  \<open>firstPeakProgress\<close>) and \<open>curveRef.current\<close> are arguments. The part of the callback
  that poses the camera (roll, pitch, field of view, smoothing of the position) writes the
  camera and refs that nothing below reads; it is left out.
  \<open>Math.sqrt\<close> of a negative number is \<open>NaN\<close>.
\<close>

definition js_sqrt :: "real \<Rightarrow> real outcome" where
  "js_sqrt a = (if a < 0 then NotFinite else Finite (sqrt a))"

record RideRefs =
  maxHeightReached :: real

record CameraRefs = RideRefs +
  previousUp :: Vector3

record HybridRefs = RideRefs +
  transportedUp :: Vector3
  lastProgress :: real

subsection \<open>The spline camera\<close>

definition onRideStart :: "Curve option \<Rightarrow> RollerCoasterState \<Rightarrow> CameraRefs \<Rightarrow> CameraRefs" where
  "onRideStart curveRef state refs =
     (case curveRef of
        Some curve \<Rightarrow>
          (if isRiding state
           then refs\<lparr>maxHeightReached := vy (getPoint curve 0), previousUp := Vector3 0 1 0\<rparr>
           else refs)
      | None \<Rightarrow> refs)"

text \<open>The speed of the tick, and \<open>maxHeightReached\<close> after the branch.\<close>

definition rideSpeedStep ::
  "ScaleConfig \<Rightarrow> real \<Rightarrow> RollerCoasterState \<Rightarrow> real \<Rightarrow> real \<Rightarrow> (real \<times> real) outcome" where
  "rideSpeedStep cfg firstPeakT state currentHeight maxHeight =
     (if hasChainLift state \<and> rideProgress state < firstPeakT
      then Finite (CHAIN_SPEED cfg * rideSpeed state, max maxHeight currentHeight)
      else
        (let maxHeight' = max maxHeight currentHeight;
             gravity = 9.8 * GRAVITY_SCALE cfg;
             heightDrop = maxHeight' - currentHeight
         in map_outcome
              (\<lambda>energySpeed. (max (MIN_RIDE_SPEED cfg) energySpeed * rideSpeed state, maxHeight'))
              (js_sqrt (2 * gravity * max 0 heightDrop))))"

definition parallelUp :: "Vector3 \<Rightarrow> Vector3 \<Rightarrow> Vector3" where
  "parallelUp prevUp' tangent' =
     (let upVector = sub prevUp' (multiplyScalar tangent' (dot prevUp' tangent'))
      in if vlength upVector > 0.01 then normalize upVector
         else (let w = Vector3 0 1 0
               in normalize (sub w (multiplyScalar tangent' (dot w tangent')))))"

definition rideCameraMove ::
  "Curve \<Rightarrow> real \<Rightarrow> real \<Rightarrow> RollerCoasterState \<times> CameraRefs \<Rightarrow> RollerCoasterState \<times> CameraRefs" where
  "rideCameraMove curve newProgress maxHeight sr =
     (case sr of (state, refs) \<Rightarrow>
        (let tangent' = normalize (getTangent curve newProgress);
             upVector = parallelUp (previousUp refs) tangent'
         in (setRideProgress newProgress state,
             refs\<lparr>maxHeightReached := maxHeight, previousUp := upVector\<rparr>)))"

definition useFrame_RideCamera ::
  "ScaleConfig \<Rightarrow> real \<Rightarrow> Curve option \<Rightarrow> real \<Rightarrow> RollerCoasterState \<times> CameraRefs
     \<Rightarrow> (RollerCoasterState \<times> CameraRefs) outcome" where
  "useFrame_RideCamera cfg firstPeakT curveRef delta sr =
     (case sr of (state, refs) \<Rightarrow>
      (case curveRef of
         None \<Rightarrow> Finite (state, refs)
       | Some curve \<Rightarrow>
           if \<not> isRiding state then Finite (state, refs)
           else
             (let curveLength = getLength curve;
                  currentHeight = vy (getPoint curve (rideProgress state))
              in case rideSpeedStep cfg firstPeakT state currentHeight (maxHeightReached refs) of
                   NotFinite \<Rightarrow> NotFinite
                 | Finite (speed, maxHeight) \<Rightarrow>
                     (case js_div (speed * delta) curveLength of
                        NotFinite \<Rightarrow> NotFinite
                      | Finite progressDelta \<Rightarrow>
                          (let newProgress = rideProgress state + progressDelta
                           in if newProgress \<ge> 1
                              then if isLooped state
                                   then Finite (rideCameraMove curve (js_rem newProgress 1)
                                          (if hasChainLift state then vy (getPoint curve 0)
                                           else maxHeight)
                                          (state, refs))
                                   else Finite (stopRide state, refs\<lparr>maxHeightReached := maxHeight\<rparr>)
                              else Finite (rideCameraMove curve newProgress maxHeight (state, refs)))))))"

subsection \<open>The hybrid camera\<close>


definition hybridSpeedStep ::
  "real \<Rightarrow> RollerCoasterState \<Rightarrow> real \<Rightarrow> real \<Rightarrow> real \<times> real" where
  "hybridSpeedStep firstPeakProgress state currentHeight maxHeight =
     (if hasChainLift state \<and> rideProgress state < firstPeakProgress
      then (let chainSpeed = 0.9 * rideSpeed state in (chainSpeed, max maxHeight currentHeight))
      else (let constantSpeed = 12.0 in (constantSpeed * rideSpeed state, maxHeight)))"

definition transportStep :: "Vector3 \<Rightarrow> Vector3 \<Rightarrow> Vector3 \<Rightarrow> Vector3" where
  "transportStep up0 prevTangent' tangent' =
     (let rotationAxis = crossVectors prevTangent' tangent';
          rotationAngle = arccos (min 1 (max (- 1) (dot prevTangent' tangent')));
          up1 = (if lengthSq rotationAxis > 0.0001 \<and> rotationAngle > 0.0001
                 then applyAxisAngle up0 (normalize rotationAxis) rotationAngle
                 else up0);
          up2 = sub up1 (multiplyScalar tangent' (dot up1 tangent'))
      in if lengthSq up2 > 0.0001 then normalize up2
         else (let w = Vector3 0 1 0
               in normalize (sub w (multiplyScalar tangent' (dot w tangent')))))"

definition nextTransportedUp ::
  "TrackSection list \<Rightarrow> Curve \<Rightarrow> HybridRefs \<Rightarrow> Sample \<Rightarrow> Vector3 outcome" where
  "nextTransportedUp secs curve refs sample =
     (if inLoop sample then Finite (sup sample)
      else
        (case sampleHybridTrack (lastProgress refs) secs curve of
           NotFinite \<Rightarrow> NotFinite
         | Finite None \<Rightarrow> Finite (sup sample)
         | Finite (Some prevSample) \<Rightarrow>
             if \<not> inLoop prevSample
             then Finite (transportStep (transportedUp refs) (tangent prevSample) (tangent sample))
             else Finite (sup sample)))"

definition hybridCameraMove ::
  "TrackSection list \<Rightarrow> Curve \<Rightarrow> real \<Rightarrow> real \<Rightarrow> RollerCoasterState \<times> HybridRefs
     \<Rightarrow> (RollerCoasterState \<times> HybridRefs) outcome" where
  "hybridCameraMove secs curve newProgress maxHeight sr =
     (case sr of (state, refs) \<Rightarrow>
        (case sampleHybridTrack newProgress secs curve of
           NotFinite \<Rightarrow> NotFinite
         | Finite None \<Rightarrow>
             Finite (setRideProgress newProgress state, refs\<lparr>maxHeightReached := maxHeight\<rparr>)
         | Finite (Some sample) \<Rightarrow>
             map_outcome
               (\<lambda>up'. (setRideProgress newProgress state,
                        refs\<lparr>maxHeightReached := maxHeight, transportedUp := up',
                              lastProgress := newProgress\<rparr>))
               (nextTransportedUp secs curve refs sample)))"

definition useFrame_hybrid ::
  "real \<Rightarrow> TrackSection list \<Rightarrow> real \<Rightarrow> Curve option \<Rightarrow> real \<Rightarrow> RollerCoasterState \<times> HybridRefs
     \<Rightarrow> (RollerCoasterState \<times> HybridRefs) outcome" where
  "useFrame_hybrid firstPeakProgress secs totalArcLength curveRef delta sr =
     (case sr of (state, refs) \<Rightarrow>
      (case curveRef of
         None \<Rightarrow> Finite (state, refs)
       | Some curve \<Rightarrow>
           if \<not> isRiding state \<or> secs = [] then Finite (state, refs)
           else
             (case sampleHybridTrack (rideProgress state) secs curve of
                NotFinite \<Rightarrow> NotFinite
              | Finite None \<Rightarrow> Finite (state, refs)
              | Finite (Some currentSample) \<Rightarrow>
                  (let currentHeight = vy (point currentSample);
                       sm = hybridSpeedStep firstPeakProgress state currentHeight
                              (maxHeightReached refs);
                       speed = fst sm;
                       maxHeight = snd sm
                   in case js_div (speed * delta) totalArcLength of
                        NotFinite \<Rightarrow> NotFinite
                      | Finite progressDelta \<Rightarrow>
                          (let newProgress = rideProgress state + progressDelta
                           in if newProgress \<ge> 1
                              then if isLooped state
                                   then hybridCameraMove secs curve (js_rem newProgress 1)
                                          (if hasChainLift state then vy (getPoint curve 0)
                                           else maxHeight)
                                          (state, refs)
                                   else Finite (stopRide state, refs\<lparr>maxHeightReached := maxHeight\<rparr>)
                              else hybridCameraMove secs curve newProgress maxHeight
                                     (state, refs))))))"

section \<open>Frame transport as the specification words it\<close>





text \<open>
  The free-rolling speed in the words of the specification: the larger of the minimum ride
  speed and \<open>sqrt (2 g max (0, maxHeightReached - currentHeight))\<close>, times the user's
  speed multiplier, with \<open>g = 9.8 * GRAVITY_SCALE\<close>.
\<close>

definition freeRollingSpeed_spec :: "ScaleConfig \<Rightarrow> real \<Rightarrow> real \<Rightarrow> real \<Rightarrow> real" where
  "freeRollingSpeed_spec cfg multiplier maxHeight currentHeight =
     max (MIN_RIDE_SPEED cfg)
       (sqrt (2 * (9.8 * GRAVITY_SCALE cfg) * max 0 (maxHeight - currentHeight)))
     * multiplier"

section \<open>Well-formed sections\<close>



section \<open>Example tracks\<close>

text \<open>
  Two tracks laid with \<open>addTrackPoint\<close> from the initial store: a straight track from the
  origin to (1, 0, 0), and a track whose two points coincide. \<open>unitLoop\<close> puts a loop of
  circumference 1 on the first point of the straight track.
\<close>

definition lineTrack :: "nat \<times> RollerCoasterState" where
  "lineTrack = addTrackPoint (Vector3 1 0 0) (addTrackPoint (Vector3 0 0 0) (0, initialState))"

definition pointTrack :: "nat \<times> RollerCoasterState" where
  "pointTrack = addTrackPoint (Vector3 0 0 0) (addTrackPoint (Vector3 0 0 0) (0, initialState))"

definition unitLoop :: LoopSegment where
  "unitLoop = \<lparr> entryPointId = ''point-1'', seg_radius = 1 / (2 * pi), seg_pitch = 0 \<rparr>"

definition lineCurve :: Curve where
  "lineCurve = chordCurve [Vector3 0 0 0, Vector3 1 0 0] False"

definition unitFrame :: LoopFrame where
  "unitFrame = \<lparr> entryPos = Vector3 0 0 0, forward = Vector3 1 0 0, up = Vector3 0 1 0,
                 right = Vector3 0 0 1, radius = 1 / (2 * pi) \<rparr>"

definition loopTable :: "TrackSection list" where
  "loopTable =
     [\<lparr> stype = loop, startProgress = 0, endProgress = 1 / 2, arcLength = 1,
        loopFrame = Some unitFrame, splineStartT = None, splineEndT = None,
        pointIndex = Some 0 \<rparr>,
      \<lparr> stype = spline, startProgress = 1 / 2, endProgress = 1, arcLength = 1,
        loopFrame = None, splineStartT = Some 0, splineEndT = Some 1, pointIndex = Some 0 \<rparr>]"

text \<open>
  The refs of the two cameras as \<open>useRef\<close> creates them, and a ride on the straight track
  with the loop, seen by the hybrid camera: the state when the ride starts, after a first
  tick of 5/9 s (the top of the loop, at progress 1/4) and after a second tick of 1/12 s
  (on the spline, at progress 3/4). On this flat track the scan for the first peak finds no
  climb and leaves \<open>firstPeakProgress\<close> at 0.2.
\<close>

definition initialCameraRefs :: CameraRefs where
  "initialCameraRefs = \<lparr> maxHeightReached = 0, previousUp = Vector3 0 1 0 \<rparr>"



definition loopRideTop :: "RollerCoasterState \<times> HybridRefs" where
  "loopRideTop =
     ((startRide (snd lineTrack))\<lparr>rideProgress := 1 / 4\<rparr>,
      \<lparr> maxHeightReached = 0, transportedUp = Vector3 0 (- 1) 0, lastProgress = 1 / 4 \<rparr>)"


text \<open>
  A straight descent from (0, 5, 0) to (12, 0, 0), of length 13, and the spline camera half
  way down it: the start height 5 is the highest so far, the height is 5/2.
\<close>

definition slopeTrack :: "nat \<times> RollerCoasterState" where
  "slopeTrack = addTrackPoint (Vector3 12 0 0) (addTrackPoint (Vector3 0 5 0) (0, initialState))"

definition slopeCurve :: Curve where
  "slopeCurve = chordCurve [Vector3 0 5 0, Vector3 12 0 0] False"

definition slopeRide :: "RollerCoasterState \<times> CameraRefs" where
  "slopeRide =
     ((startRide (snd slopeTrack))\<lparr>rideProgress := 1 / 2\<rparr>,
      \<lparr> maxHeightReached = 5, previousUp = Vector3 (5 / 13) (12 / 13) 0 \<rparr>)"

text \<open>
  A closed curve for the rides on a closed track: a tilted circle of radius 25/12 through
  (25/12, 0, 0), which starts at height 0, peaks at height 5/4 a quarter of the way round and
  is at height -5/4 three quarters of the way round. \<open>ringTable\<close> is its section table,
  one spline section. The ride is three quarters of the way round, with the peak 5/4 as the
  highest point so far.
\<close>

definition ringCurve :: Curve where
  "ringCurve =
     \<lparr> getPoint = (\<lambda>t. Vector3 (25 / 12 * cos (2 * pi * t)) (5 / 4 * sin (2 * pi * t))
                         (5 / 3 * sin (2 * pi * t))),
       getTangent = (\<lambda>t. Vector3 (- sin (2 * pi * t)) (3 / 5 * cos (2 * pi * t))
                         (4 / 5 * cos (2 * pi * t))),
       getLength = 25 * pi / 6 \<rparr>"

definition ringTable :: "TrackSection list" where
  "ringTable =
     [\<lparr> stype = spline, startProgress = 0, endProgress = 1, arcLength = 25 * pi / 6,
        loopFrame = None, splineStartT = Some 0, splineEndT = Some 1, pointIndex = Some 0 \<rparr>]"

definition ringStore :: RollerCoasterState where
  "ringStore = initialState\<lparr>mode := ride, isRiding := True, isLooped := True, rideProgress := 3 / 4\<rparr>"

definition ringRide :: "RollerCoasterState \<times> CameraRefs" where
  "ringRide = (ringStore, \<lparr> maxHeightReached = 5 / 4, previousUp = Vector3 0 1 0 \<rparr>)"

definition ringRide_hybrid :: "RollerCoasterState \<times> HybridRefs" where
  "ringRide_hybrid =
     (ringStore, \<lparr> maxHeightReached = 5 / 4, transportedUp = Vector3 0 1 0, lastProgress = 3 / 4 \<rparr>)"




definition dotCurve :: Curve where
  "dotCurve = chordCurve [Vector3 0 0 0, Vector3 0 0 0] False"

text \<open>The builder's state on the straight track before the first step, and the two raw sections.\<close>

definition lineState0 :: BuildState where
  "lineState0 = \<lparr> sections = [], accumulatedLength = 0, prevTangent = Vector3 1 0 0,
       prevUp = Vector3 0 1 0 \<rparr>"

definition rawLoop :: TrackSection where
  "rawLoop = \<lparr> stype = loop, startProgress = 0, endProgress = 0, arcLength = 1,
              loopFrame = Some unitFrame, splineStartT = None, splineEndT = None,
              pointIndex = Some 0 \<rparr>"

definition rawSpline :: TrackSection where
  "rawSpline = \<lparr> stype = spline, startProgress = 0, endProgress = 0, arcLength = 1,
              loopFrame = None, splineStartT = Some 0, splineEndT = Some 1, pointIndex = Some 0 \<rparr>"

text \<open>An invariant of the builder's loop: no section has a negative arc length.\<close>

definition arcsNonneg :: "BuildState \<Rightarrow> bool" where
  "arcsNonneg st = (\<forall>s \<in> set (sections st). 0 \<le> arcLength s)"

section \<open>Lemmas\<close>

declare decimal.simps [simp del]

subsection \<open>Vectors, loop frames and the sampler\<close>

lemma lengthSq_nonneg: "0 \<le> lengthSq a"
  by (simp add: lengthSq_def)

lemma normalize_unit: "vlength a = 1 \<Longrightarrow> normalize a = a"
  by (cases a) (simp add: normalize_def multiplyScalar_def)

lemma vlength_negate: "vlength (negate a) = vlength a"
  by (simp add: vlength_def lengthSq_def negate_def)


lemma vlength_eq_0: "vlength a = 0 \<longleftrightarrow> lengthSq a = 0"
  by (simp add: vlength_def)



























lemma clampProgress_idem: "clampProgress (clampProgress p) = clampProgress p"
  by (simp add: clampProgress_def)

subsection \<open>The builder and the normalisation pass\<close>

lemma loopStep_sum:
  "accumulatedLength st = sum_list (map arcLength (sections st))
   \<Longrightarrow> accumulatedLength (loopStep curve loopMap points n i st)
        = sum_list (map arcLength (sections (loopStep curve loopMap points n i st)))"
  by (simp add: loopStep_def Let_def split: option.splits)

lemma splineStep_sum:
  "accumulatedLength st = sum_list (map arcLength (sections st))
   \<Longrightarrow> accumulatedLength (splineStep curve n i st)
        = sum_list (map arcLength (sections (splineStep curve n i st)))"
  by (simp add: splineStep_def Let_def)

lemma buildStep_sum:
  "accumulatedLength st = sum_list (map arcLength (sections st))
   \<Longrightarrow> accumulatedLength (buildStep curve loopMap points looped i st)
        = sum_list (map arcLength (sections (buildStep curve loopMap points looped i st)))"
  by (simp add: buildStep_def Let_def loopStep_sum splineStep_sum)

lemma fold_buildStep_sum:
  "accumulatedLength st = sum_list (map arcLength (sections st))
   \<Longrightarrow> accumulatedLength (fold (buildStep curve loopMap points looped) is st)
        = sum_list (map arcLength (sections (fold (buildStep curve loopMap points looped) is st)))"
  by (induction "is" arbitrary: st) (simp_all add: buildStep_sum)

lemma buildRaw_sum:
  "accumulatedLength (buildRaw curve points segs looped)
     = sum_list (map arcLength (sections (buildRaw curve points segs looped)))"
  by (simp add: buildRaw_def Let_def fold_buildStep_sum)

lemma loopStep_grows: "\<exists>ys. sections (loopStep curve loopMap points n i st) = sections st @ ys"
  by (simp add: loopStep_def Let_def split: option.splits)

lemma splineStep_grows: "\<exists>y. sections (splineStep curve n i st) = sections st @ [y]"
  by (simp add: splineStep_def Let_def)

lemma buildStep_grows:
  "\<exists>ys. sections (buildStep curve loopMap points looped i st) = sections st @ ys"
proof -
  obtain ys where a: "sections (loopStep curve loopMap points
        (if looped then length points else length points - 1) i st) = sections st @ ys"
    using loopStep_grows by blast
  show ?thesis
    using a splineStep_grows [of curve "if looped then length points else length points - 1" i
        "loopStep curve loopMap points (if looped then length points else length points - 1) i st"]
    by (auto simp: buildStep_def Let_def)
qed

lemma fold_buildStep_grows:
  "\<exists>ys. sections (fold (buildStep curve loopMap points looped) is st) = sections st @ ys"
proof (induction "is" arbitrary: st)
  case Nil
  then show ?case by simp
next
  case (Cons i "is")
  obtain ys where a: "sections (buildStep curve loopMap points looped i st) = sections st @ ys"
    using buildStep_grows by blast
  obtain zs where "sections (fold (buildStep curve loopMap points looped) is
        (buildStep curve loopMap points looped i st))
      = sections (buildStep curve loopMap points looped i st) @ zs"
    using Cons.IH by blast
  then show ?case using a by simp
qed

lemma buildStep_first_nonempty:
  assumes "2 \<le> length points"
  shows "sections (buildStep curve loopMap points looped 0 st) \<noteq> []"
proof -
  have "\<not> (0 \<ge> length points - 1 \<and> \<not> looped)" using assms by simp
  then show ?thesis
    using splineStep_grows [of curve "if looped then length points else length points - 1" 0
        "loopStep curve loopMap points (if looped then length points else length points - 1) 0 st"]
    by (auto simp: buildStep_def Let_def)
qed

lemma buildRaw_nonempty:
  assumes "2 \<le> length points"
  shows "sections (buildRaw curve points segs looped) \<noteq> []"
proof -
  let ?f = "buildStep curve (loopMapOf segs) points looped"
  let ?st0 = "\<lparr> sections = [], accumulatedLength = 0,
                 prevTangent = normalize (getTangent curve 0),
                 prevUp = initialUp (normalize (getTangent curve 0)) \<rparr>"
  have "0 < length points" using assms by (cases points) simp_all
  then have u: "[0 ..< length points] = 0 # [1 ..< length points]"
    by (metis One_nat_def upt_conv_Cons)
  have e: "buildRaw curve points segs looped = fold ?f [1 ..< length points] (?f 0 ?st0)"
    by (simp add: buildRaw_def Let_def u)
  obtain ys where "sections (fold ?f [1 ..< length points] (?f 0 ?st0))
      = sections (?f 0 ?st0) @ ys"
    using fold_buildStep_grows by blast
  then show ?thesis
    using e buildStep_first_nonempty [OF assms, of curve "loopMapOf segs" looped ?st0] by simp
qed

lemma normalizeSections_props:
  assumes "totalLen \<noteq> 0"
  shows "\<exists>secs'. normalizeSections totalLen r secs = Finite secs'
           \<and> length secs' = length secs
           \<and> map arcLength secs' = map arcLength secs
           \<and> (secs \<noteq> [] \<longrightarrow> startProgress (hd secs') = r / totalLen)
           \<and> (secs \<noteq> [] \<longrightarrow> endProgress (last secs') = (r + sum_list (map arcLength secs)) / totalLen)
           \<and> contiguous secs'"
proof (induction secs arbitrary: r)
  case Nil
  then show ?case by simp
next
  case (Cons s rest)
  obtain rest' where r: "normalizeSections totalLen (r + arcLength s) rest = Finite rest'"
      "length rest' = length rest" "map arcLength rest' = map arcLength rest"
      "rest \<noteq> [] \<longrightarrow> startProgress (hd rest') = (r + arcLength s) / totalLen"
      "rest \<noteq> [] \<longrightarrow> endProgress (last rest')
          = (r + arcLength s + sum_list (map arcLength rest)) / totalLen"
      "contiguous rest'"
    using Cons.IH [of "r + arcLength s"] by blast
  let ?h = "s\<lparr>startProgress := r / totalLen, endProgress := (r + arcLength s) / totalLen\<rparr>"
  have e: "normalizeSections totalLen r (s # rest) = Finite (?h # rest')"
    using assms r(1) by (simp add: js_div_def)
  have c: "contiguous (?h # rest')"
  proof (cases rest')
    case Nil
    then show ?thesis by simp
  next
    case (Cons b bs)
    then have "rest \<noteq> []" using r(2) by auto
    then show ?thesis using r(4,6) Cons by simp
  qed
  have l: "endProgress (last (?h # rest')) = (r + sum_list (map arcLength (s # rest))) / totalLen"
  proof (cases rest)
    case Nil
    then have "rest' = []" using r(2) by simp
    then show ?thesis using Nil by simp
  next
    case (Cons b bs)
    then have "rest' \<noteq> []" using r(2) by auto
    then show ?thesis using r(5) Cons by (simp add: add.assoc)
  qed
  show ?case using e c l r(2,3) by simp
qed

lemma normalizeSections_monotone:
  assumes "0 < totalLen" and "\<forall>s \<in> set secs. 0 \<le> arcLength s"
    and "normalizeSections totalLen r secs = Finite secs'"
  shows "\<forall>s \<in> set secs'. startProgress s \<le> endProgress s"
  using assms(2,3)
proof (induction secs arbitrary: r secs')
  case Nil
  then show ?case by simp
next
  case (Cons s rest)
  then show ?case
    using assms(1)
    by (auto simp: js_div_def divide_le_cancel split: outcome.splits)
qed

subsection \<open>The example tracks\<close>

lemma lineTrack_eq: "lineTrack = (2, initialState\<lparr>trackPoints :=
   [\<lparr>point_id = ''point-1'', position = Vector3 0 0 0, tilt = 0, loopMeta = None\<rparr>,
    \<lparr>point_id = ''point-2'', position = Vector3 1 0 0, tilt = 0, loopMeta = None\<rparr>]\<rparr>)"
  by (simp add: lineTrack_def addTrackPoint_def pushPoint_def initialState_def pointName_def
      decimal.simps digit_def)

lemma lineCurve_eq:
  "lineCurve = \<lparr> getPoint = (\<lambda>t. Vector3 t 0 0), getTangent = (\<lambda>t. Vector3 1 0 0), getLength = 1 \<rparr>"
  by (simp add: lineCurve_def chordCurve_def add_def sub_def multiplyScalar_def normalize_def
      vlength_def lengthSq_def distanceTo_def)

lemma distance_on_axis: "distanceTo (Vector3 a 0 0) (Vector3 b 0 0) = \<bar>a - b\<bar>"
  by (simp add: distanceTo_def vlength_def lengthSq_def sub_def)

lemma upt_ten: "[0 ..< 10] = [0, 1, 2, 3, 4, 5, 6, 7, 8, 9 :: nat]"
  by code_simp

lemma segmentLength_line: "segmentLength lineCurve 0 1 = 1"
  by (simp add: segmentLength_def lineCurve_eq distance_on_axis upt_ten Let_def)

lemma loopMap_unitLoop:
  "loopMapOf [unitLoop] = [''point-1'' \<mapsto> unitLoop]"
  by (simp add: loopMapOf_def unitLoop_def)

lemma upt_two: "[0 ..< 2] = [0, 1 :: nat]"
  by code_simp

lemma up_axis_unit: "vlength (Vector3 0 1 0) = 1" "vlength (Vector3 1 0 0) = 1" "vlength (Vector3 0 0 1) = 1"
  by (simp_all add: vlength_def lengthSq_def)

lemma sin_cos_pi2: "sin (pi * 2) = 0" "cos (pi * 2) = 1"
  by (simp_all add: mult.commute)

lemma unitFrame_exit:
  "sampleLoopAnalytically unitFrame (pi * 2)
     = \<lparr> point = Vector3 0 0 0, tangent = Vector3 1 0 0, sup = Vector3 0 1 0, inLoop = True \<rparr>"
  by (simp add: sampleLoopAnalytically_def unitFrame_def addScaledVector_def zero3_def
      normalize_unit up_axis_unit sin_cos_pi2)

lemma transportAlong_same: "transportAlong (Vector3 1 0 0) v (Vector3 1 0 0) = v"
  by (simp add: transportAlong_def dot_def)

lemma computeLoopFrame_line:
  "computeLoopFrame lineCurve 0 (Vector3 1 0 0) (Vector3 0 1 0) (1 / (2 * pi)) = unitFrame"
proof -
  have a: "getPoint lineCurve 0 = Vector3 0 0 0" "getTangent lineCurve 0 = Vector3 1 0 0"
    by (simp_all add: lineCurve_eq)
  have b: "sub (Vector3 0 1 0) (multiplyScalar (Vector3 1 0 0) (dot (Vector3 0 1 0) (Vector3 1 0 0)))
      = Vector3 0 1 0"
    by (simp add: dot_def sub_def multiplyScalar_def)
  have c: "crossVectors (Vector3 1 0 0) (Vector3 0 1 0) = Vector3 0 0 1"
    by (simp add: crossVectors_def)
  show ?thesis
    unfolding computeLoopFrame_def Let_def a
    by (simp add: normalize_unit up_axis_unit transportAlong_same b c unitFrame_def)
qed

lemma loopStep_line:
  "loopStep lineCurve (loopMapOf [unitLoop]) (trackPoints (snd lineTrack)) (Suc 0) 0 lineState0
     = \<lparr> sections = [rawLoop], accumulatedLength = 1, prevTangent = Vector3 1 0 0,
         prevUp = Vector3 0 1 0 \<rparr>"
proof -
  have r: "seg_radius unitLoop = 1 / (2 * pi)" by (simp add: unitLoop_def)
  have m: "loopMapOf [unitLoop] (point_id (trackPoints (snd lineTrack) ! 0)) = Some unitLoop"
    by (simp add: loopMap_unitLoop lineTrack_eq)
  show ?thesis
    unfolding loopStep_def m
    by (simp add: Let_def lineState0_def r computeLoopFrame_line unitFrame_exit rawLoop_def)
qed

lemma splineStep_line:
  "splineStep lineCurve (Suc 0) 0 \<lparr> sections = [rawLoop], accumulatedLength = 1,
         prevTangent = Vector3 1 0 0, prevUp = Vector3 0 1 0 \<rparr>
     = \<lparr> sections = [rawLoop, rawSpline], accumulatedLength = 2, prevTangent = Vector3 1 0 0,
         prevUp = Vector3 0 1 0 \<rparr>"
proof -
  have t: "normalize (getTangent lineCurve ((real 0 + 1) / real (Suc 0))) = Vector3 1 0 0"
    by (simp add: lineCurve_eq normalize_unit up_axis_unit)
  have d: "dot (Vector3 1 0 0) (Vector3 1 0 0) = 1" "dot (Vector3 0 1 0) (Vector3 1 0 0) = 0"
    by (simp_all add: dot_def)
  have b: "sub (Vector3 0 1 0) (multiplyScalar (Vector3 1 0 0) 0) = Vector3 0 1 0"
    by (simp add: sub_def multiplyScalar_def)
  show ?thesis
    unfolding splineStep_def Let_def t
    by (simp add: d b segmentLength_line normalize_unit up_axis_unit rawSpline_def)
qed

lemma loopStep_line_last:
  "loopStep lineCurve (loopMapOf [unitLoop]) (trackPoints (snd lineTrack)) n (Suc 0) st = st"
proof -
  have m: "loopMapOf [unitLoop] (point_id (trackPoints (snd lineTrack) ! Suc 0)) = None"
    by (simp add: loopMap_unitLoop lineTrack_eq)
  show ?thesis unfolding loopStep_def m by simp
qed

lemma buildRaw_line:
  "buildRaw lineCurve (trackPoints (snd lineTrack)) [unitLoop] False
     = \<lparr> sections = [rawLoop, rawSpline], accumulatedLength = 2, prevTangent = Vector3 1 0 0,
         prevUp = Vector3 0 1 0 \<rparr>"
proof -
  have t0: "normalize (getTangent lineCurve 0) = Vector3 1 0 0"
    by (simp add: lineCurve_eq normalize_unit up_axis_unit)
  have u0: "initialUp (Vector3 1 0 0) = Vector3 0 1 0"
    by (simp add: initialUp_def Let_def dot_def sub_def multiplyScalar_def normalize_unit up_axis_unit)
  have n: "length (trackPoints (snd lineTrack)) = 2" by (simp add: lineTrack_eq)
  have s0: "buildStep lineCurve (loopMapOf [unitLoop]) (trackPoints (snd lineTrack)) False 0 lineState0
      = \<lparr> sections = [rawLoop, rawSpline], accumulatedLength = 2, prevTangent = Vector3 1 0 0,
         prevUp = Vector3 0 1 0 \<rparr>"
    unfolding buildStep_def Let_def n by (simp add: loopStep_line splineStep_line)
  have s1: "buildStep lineCurve (loopMapOf [unitLoop]) (trackPoints (snd lineTrack)) False (Suc 0) st = st"
    for st
    unfolding buildStep_def Let_def n by (simp add: loopStep_line_last)
  show ?thesis
    unfolding buildRaw_def Let_def t0 u0 n upt_two
    by (simp add: s0 [unfolded lineState0_def] s1)
qed

lemma buildSections_line:
  "buildSections chordCurve (trackPoints (snd lineTrack)) [unitLoop] False = Finite (loopTable, 2)"
proof -
  have c: "getTrackCurve chordCurve (trackPoints (snd lineTrack)) False = Some lineCurve"
    by (simp add: getTrackCurve_def lineTrack_eq lineCurve_def)
  have n: "length (trackPoints (snd lineTrack)) = 2" by (simp add: lineTrack_eq)
  show ?thesis
    unfolding buildSections_def c n
    by (simp add: buildRaw_line Let_def js_div_def loopTable_def rawLoop_def rawSpline_def)
qed

subsection \<open>Arc lengths\<close>

lemma loopMapOf_mem:
  "fold (\<lambda>seg m. m(entryPointId seg \<mapsto> seg)) segs m0 k = Some seg
   \<Longrightarrow> seg \<in> set segs \<or> m0 k = Some seg"
  by (induction segs arbitrary: m0) (fastforce split: if_splits)+

lemma loopMapOf_in: "loopMapOf segs k = Some seg \<Longrightarrow> seg \<in> set segs"
  using loopMapOf_mem [of segs Map.empty k seg] by (simp add: loopMapOf_def)

lemma distanceTo_nonneg: "0 \<le> distanceTo a b"
  by (simp add: distanceTo_def vlength_def lengthSq_nonneg)

lemma fold_add_nonneg:
  "(\<And>s. 0 \<le> d s) \<Longrightarrow> (acc::real) \<le> fold (\<lambda>s len. len + d s) xs acc"
proof (induction xs arbitrary: acc)
  case Nil
  then show ?case by simp
next
  case (Cons x xs)
  have "acc \<le> acc + d x" using Cons.prems [of x] by simp
  also have "\<dots> \<le> fold (\<lambda>s len. len + d s) xs (acc + d x)"
    using Cons.IH [OF Cons.prems] .
  finally show ?case by simp
qed

lemma segmentLength_nonneg: "0 \<le> segmentLength curve a b"
  unfolding segmentLength_def Let_def
  by (rule fold_add_nonneg) (rule distanceTo_nonneg)

lemma loopStep_arcs:
  assumes "\<forall>seg \<in> set segs. 0 \<le> seg_radius seg" and "arcsNonneg st"
  shows "arcsNonneg (loopStep curve (loopMapOf segs) points n i st)"
proof (cases "loopMapOf segs (point_id (points ! i))")
  case None
  then show ?thesis using assms(2) by (simp add: loopStep_def)
next
  case (Some seg)
  then have "0 \<le> seg_radius seg" using assms(1) loopMapOf_in by blast
  then show ?thesis
    using assms(2) Some by (simp add: loopStep_def Let_def arcsNonneg_def)
qed

lemma splineStep_arcs: "arcsNonneg st \<Longrightarrow> arcsNonneg (splineStep curve n i st)"
  by (simp add: splineStep_def Let_def arcsNonneg_def segmentLength_nonneg)

lemma buildStep_arcs:
  assumes "\<forall>seg \<in> set segs. 0 \<le> seg_radius seg" and "arcsNonneg st"
  shows "arcsNonneg (buildStep curve (loopMapOf segs) points looped i st)"
  using loopStep_arcs [OF assms] by (simp add: buildStep_def Let_def splineStep_arcs)

lemma fold_buildStep_arcs:
  assumes "\<forall>seg \<in> set segs. 0 \<le> seg_radius seg" and "arcsNonneg st"
  shows "arcsNonneg (fold (buildStep curve (loopMapOf segs) points looped) is st)"
  using assms(2)
  by (induction "is" arbitrary: st) (simp_all add: buildStep_arcs [OF assms(1)])

lemma buildRaw_arcs:
  assumes "\<forall>seg \<in> set segs. 0 \<le> seg_radius seg"
  shows "\<forall>s \<in> set (sections (buildRaw curve points segs looped)). 0 \<le> arcLength s"
proof -
  have "arcsNonneg (buildRaw curve points segs looped)"
    unfolding buildRaw_def Let_def
    by (rule fold_buildStep_arcs [OF assms]) (simp add: arcsNonneg_def)
  then show ?thesis by (simp add: arcsNonneg_def)
qed

lemma sum_list_nonneg_real: "\<forall>x \<in> set xs. (0::real) \<le> f x \<Longrightarrow> 0 \<le> sum_list (map f xs)"
  by (induction xs) simp_all

subsection \<open>More on the examples\<close>




lemma pointTrack_eq: "pointTrack = (2, initialState\<lparr>trackPoints :=
   [\<lparr>point_id = ''point-1'', position = Vector3 0 0 0, tilt = 0, loopMeta = None\<rparr>,
    \<lparr>point_id = ''point-2'', position = Vector3 0 0 0, tilt = 0, loopMeta = None\<rparr>]\<rparr>)"
  by (simp add: pointTrack_def addTrackPoint_def pushPoint_def initialState_def pointName_def
      decimal.simps digit_def)

lemma dotCurve_eq:
  "dotCurve = \<lparr> getPoint = (\<lambda>t. Vector3 0 0 0), getTangent = (\<lambda>t. Vector3 0 0 0), getLength = 0 \<rparr>"
  by (simp add: dotCurve_def chordCurve_def add_def sub_def multiplyScalar_def normalize_def
      vlength_def lengthSq_def distanceTo_def)

lemma segmentLength_dot: "segmentLength dotCurve a b = 0"
  by (simp add: segmentLength_def dotCurve_eq distance_on_axis upt_ten Let_def)

lemma loopMapOf_empty: "loopMapOf [] k = None"
  by (simp add: loopMapOf_def)

lemma buildRaw_point_length:
  "accumulatedLength (buildRaw dotCurve (trackPoints (snd pointTrack)) [] False) = 0"
proof -
  have n: "length (trackPoints (snd pointTrack)) = 2" by (simp add: pointTrack_eq)
  have l: "loopStep dotCurve (loopMapOf []) pts k i st = st" for pts k i st
    by (simp add: loopStep_def loopMapOf_empty)
  have s0: "accumulatedLength (buildStep dotCurve (loopMapOf []) (trackPoints (snd pointTrack)) False 0 st)
      = accumulatedLength st" for st
    unfolding buildStep_def Let_def n by (simp add: l splineStep_def Let_def segmentLength_dot)
  have s1: "buildStep dotCurve (loopMapOf []) (trackPoints (snd pointTrack)) False (Suc 0) st = st"
    for st
    unfolding buildStep_def Let_def n by (simp add: l)
  show ?thesis
    unfolding buildRaw_def Let_def n upt_two by (simp add: s0 s1)
qed

subsection \<open>The store\<close>

lemma findIndex_None: "\<forall>p \<in> set xs. \<not> P p \<Longrightarrow> findIndex P xs = None"
  by (simp add: findIndex_def)

subsection \<open>The ride tick\<close>

lemma js_rem_one:
  assumes "1 \<le> a"
  shows "js_rem a 1 = a - of_int \<lfloor>a\<rfloor> \<and> 0 \<le> js_rem a 1 \<and> js_rem a 1 < 1"
proof -
  have "js_rem a 1 = a - of_int \<lfloor>a\<rfloor>"
    using assms by (simp add: js_rem_def js_trunc_def)
  moreover have "0 \<le> a - of_int \<lfloor>a\<rfloor>" by linarith
  moreover have "a - of_int \<lfloor>a\<rfloor> < 1" by linarith
  ultimately show ?thesis by simp
qed

lemma rideSpeedStep_free:
  assumes "\<not> (hasChainLift st \<and> rideProgress st < firstPeak)" and "0 \<le> GRAVITY_SCALE cfg"
  shows "rideSpeedStep cfg firstPeak st h mh
           = Finite (freeRollingSpeed_spec cfg (rideSpeed st) (max mh h) h, max mh h)"
proof -
  have "0 \<le> 2 * (9.8 * GRAVITY_SCALE cfg) * max 0 (max mh h - h)"
    using assms(2) by simp
  then have "js_sqrt (2 * (9.8 * GRAVITY_SCALE cfg) * max 0 (max mh h - h))
      = Finite (sqrt (2 * (9.8 * GRAVITY_SCALE cfg) * max 0 (max mh h - h)))"
    unfolding js_sqrt_def by (simp only: not_less [symmetric] if_False)
  then show ?thesis
    using assms(1) unfolding rideSpeedStep_def Let_def freeRollingSpeed_spec_def
    by (simp only: if_False outcome.map)
qed


lemma useFrame_RideCamera_unfold:
  assumes "isRiding st"
    and "rideSpeedStep cfg firstPeak st (vy (getPoint curve (rideProgress st))) (maxHeightReached refs)
           = Finite (speed, mh)"
    and "getLength curve \<noteq> 0"
  shows "useFrame_RideCamera cfg firstPeak (Some curve) delta (st, refs)
           = (let np = rideProgress st + speed * delta / getLength curve
              in if np \<ge> 1
                 then if isLooped st
                      then Finite (rideCameraMove curve (js_rem np 1)
                             (if hasChainLift st then vy (getPoint curve 0) else mh) (st, refs))
                      else Finite (stopRide st, refs\<lparr>maxHeightReached := mh\<rparr>)
                 else Finite (rideCameraMove curve np mh (st, refs)))"
  using assms by (simp add: useFrame_RideCamera_def Let_def js_div_def)

lemma useFrame_hybrid_unfold:
  assumes "isRiding st" and "secs \<noteq> []"
    and "sampleHybridTrack (rideProgress st) secs curve = Finite (Some cs)"
    and "hybridSpeedStep firstPeak st (vy (point cs)) (maxHeightReached refs) = (speed, mh)"
    and "totalArcLength \<noteq> 0"
  shows "useFrame_hybrid firstPeak secs totalArcLength (Some curve) delta (st, refs)
           = (let np = rideProgress st + speed * delta / totalArcLength
              in if np \<ge> 1
                 then if isLooped st
                      then hybridCameraMove secs curve (js_rem np 1)
                             (if hasChainLift st then vy (getPoint curve 0) else mh) (st, refs)
                      else Finite (stopRide st, refs\<lparr>maxHeightReached := mh\<rparr>)
                 else hybridCameraMove secs curve np mh (st, refs))"
  using assms by (simp add: useFrame_hybrid_def Let_def js_div_def)

lemma rideCameraMove_fields:
  "rideProgress (fst (rideCameraMove curve p m (st, refs))) = p
   \<and> maxHeightReached (snd (rideCameraMove curve p m (st, refs))) = m
   \<and> mode (fst (rideCameraMove curve p m (st, refs))) = mode st
   \<and> isRiding (fst (rideCameraMove curve p m (st, refs))) = isRiding st"
  by (simp add: rideCameraMove_def Let_def setRideProgress_def)

lemma hybridCameraMove_fields:
  assumes "hybridCameraMove secs curve p m (st, refs) = Finite r"
  shows "rideProgress (fst r) = p \<and> maxHeightReached (snd r) = m
         \<and> mode (fst r) = mode st \<and> isRiding (fst r) = isRiding st"
proof (cases "sampleHybridTrack p secs curve")
  case NotFinite
  then show ?thesis using assms by (simp add: hybridCameraMove_def)
next
  case (Finite o1)
  show ?thesis
  proof (cases o1)
    case None
    then show ?thesis
      using assms Finite by (auto simp: hybridCameraMove_def setRideProgress_def)
  next
    case (Some smp)
    show ?thesis
    proof (cases "nextTransportedUp secs curve refs smp")
      case NotFinite
      then show ?thesis using assms \<open>sampleHybridTrack p secs curve = Finite o1\<close> Some
        by (simp add: hybridCameraMove_def)
    next
      case (Finite u)
      then show ?thesis using assms \<open>sampleHybridTrack p secs curve = Finite o1\<close> Some
        by (auto simp: hybridCameraMove_def setRideProgress_def)
    qed
  qed
qed

lemma nextTransportedUp_finite:
  assumes "inLoop smp \<or> sampleHybridTrack (lastProgress refs) secs curve \<noteq> NotFinite"
  shows "\<exists>u. nextTransportedUp secs curve refs smp = Finite u"
  using assms
  by (auto simp: nextTransportedUp_def split: outcome.splits option.splits)

lemma hybridCameraMove_finite:
  assumes "sampleHybridTrack p secs curve \<noteq> NotFinite"
    and "sampleHybridTrack (lastProgress refs) secs curve \<noteq> NotFinite"
  shows "\<exists>r. hybridCameraMove secs curve p m (st, refs) = Finite r"
proof (cases "sampleHybridTrack p secs curve")
  case NotFinite
  then show ?thesis using assms(1) by simp
next
  case (Finite o1)
  show ?thesis
  proof (cases o1)
    case None
    then show ?thesis using Finite by (simp add: hybridCameraMove_def)
  next
    case (Some smp)
    obtain u where "nextTransportedUp secs curve refs smp = Finite u"
      using nextTransportedUp_finite assms(2) by blast
    then show ?thesis using Finite Some by (simp add: hybridCameraMove_def)
  qed
qed

subsection \<open>Frame transport\<close>






subsection \<open>The ride on the straight track with the loop\<close>

lemma loopTable_nonempty: "loopTable \<noteq> []"
  by (simp add: loopTable_def)

lemma find_loop_section:
  assumes "0 \<le> p" and "p < 1 / 2"
  shows "findSection p loopTable = hd loopTable"
  using assms by (simp add: findSection_def loopTable_def)

lemma find_spline_section:
  assumes "1 / 2 \<le> p"
  shows "findSection p loopTable = last loopTable"
  using assms by (auto simp: findSection_def loopTable_def)

lemma sample_loop_section:
  assumes "0 \<le> p" and "p < 1 / 2"
  shows "sampleHybridTrack p loopTable lineCurve
           = Finite (Some (sampleLoopAnalytically unitFrame (p / (1 / 2) * pi * 2)))"
proof -
  have c: "clampProgress p = p" using assms by (simp add: clampProgress_def)
  have f: "findSection p loopTable = hd loopTable" using find_loop_section [OF assms] .
  show ?thesis
    unfolding sampleHybridTrack_def Let_def c f
    by (simp add: loopTable_def js_div_def)
qed


lemma minus_axis_unit: "vlength (Vector3 (- 1) 0 0) = 1" "vlength (Vector3 0 (- 1) 0) = 1"
  by (simp_all add: vlength_def lengthSq_def)

lemma sample_top:
  "sampleHybridTrack (1 / 4) loopTable lineCurve
     = Finite (Some \<lparr> point = Vector3 0 (1 / pi) 0, tangent = Vector3 (- 1) 0 0,
                      sup = Vector3 0 (- 1) 0, inLoop = True \<rparr>)"
proof -
  have a: "(1 / 4) / (1 / 2) * pi * 2 = pi" by simp
  show ?thesis
    using sample_loop_section [of "1 / 4"] unfolding a
    by (simp add: sampleLoopAnalytically_def unitFrame_def addScaledVector_def zero3_def
        normalize_unit minus_axis_unit)
qed

lemma worldUpFor_x: "worldUpFor (Vector3 1 0 0) = Vector3 0 1 0"
  by (simp add: worldUpFor_def Let_def dot_def sub_def multiplyScalar_def lengthSq_def
      normalize_unit up_axis_unit)

lemma sample_spline_section:
  assumes "1 / 2 \<le> p" and "p \<le> 0.9999"
  shows "sampleHybridTrack p loopTable lineCurve
           = Finite (Some \<lparr> point = Vector3 ((p - 1 / 2) / (1 / 2)) 0 0, tangent = Vector3 1 0 0,
                            sup = Vector3 0 1 0, inLoop = False \<rparr>)"
proof -
  have c: "clampProgress p = p" using assms by (simp add: clampProgress_def)
  have f: "findSection p loopTable = last loopTable" using find_spline_section [OF assms(1)] .
  show ?thesis
    unfolding sampleHybridTrack_def Let_def c f
    by (simp add: loopTable_def js_div_def lineCurve_eq normalize_unit up_axis_unit worldUpFor_x)
qed


lemma startRide_line:
  "startRide (snd lineTrack) = (snd lineTrack)\<lparr>mode := ride, isRiding := True, rideProgress := 0\<rparr>"
  by (simp add: startRide_def lineTrack_eq)

lemma rideStart_fields:
  "isRiding (startRide (snd lineTrack))" "rideProgress (startRide (snd lineTrack)) = 0"
  "hasChainLift (startRide (snd lineTrack))" "rideSpeed (startRide (snd lineTrack)) = 1"
  "\<not> isLooped (startRide (snd lineTrack))"
  by (simp_all add: startRide_def lineTrack_eq initialState_def)





subsection \<open>The descent\<close>

lemma sqrt_49: "sqrt 49 = 7"
  by (rule real_sqrt_unique) simp_all

lemma sqrt_169: "sqrt 169 = 13"
  by (rule real_sqrt_unique) simp_all

lemma slopeTrack_eq: "slopeTrack = (2, initialState\<lparr>trackPoints :=
   [\<lparr>point_id = ''point-1'', position = Vector3 0 5 0, tilt = 0, loopMeta = None\<rparr>,
    \<lparr>point_id = ''point-2'', position = Vector3 12 0 0, tilt = 0, loopMeta = None\<rparr>]\<rparr>)"
  by (simp add: slopeTrack_def addTrackPoint_def pushPoint_def initialState_def pointName_def
      decimal.simps digit_def)

lemma slopeCurve_point: "getPoint slopeCurve t = Vector3 (12 * t) (5 - 5 * t) 0"
  by (simp add: slopeCurve_def chordCurve_def add_def sub_def multiplyScalar_def)

lemma slopeCurve_length: "getLength slopeCurve = 13"
  by (simp add: slopeCurve_def chordCurve_def distanceTo_def vlength_def lengthSq_def sub_def
      sqrt_169)

lemma slopeRide_fields:
  "isRiding (fst slopeRide)" "rideProgress (fst slopeRide) = 1 / 2"
  "hasChainLift (fst slopeRide)" "rideSpeed (fst slopeRide) = 1" "\<not> isLooped (fst slopeRide)"
  "maxHeightReached (snd slopeRide) = 5"
  by (simp_all add: slopeRide_def startRide_def slopeTrack_eq initialState_def)

lemma slope_speed: "freeRollingSpeed_spec exampleConfig 1 5 (5 / 2) = 7"
proof -
  have "2 * (9.8 * 1) * max 0 (5 - 5 / 2) = (49::real)" by simp
  then show ?thesis
    unfolding freeRollingSpeed_spec_def by (simp add: exampleConfig_def sqrt_49)
qed

lemma loopRideTop_fields:
  "isRiding (fst loopRideTop)" "rideProgress (fst loopRideTop) = 1 / 4"
  "hasChainLift (fst loopRideTop)" "rideSpeed (fst loopRideTop) = 1"
  "\<not> isLooped (fst loopRideTop)" "maxHeightReached (snd loopRideTop) = 0"
  "lastProgress (snd loopRideTop) = 1 / 4" "transportedUp (snd loopRideTop) = Vector3 0 (- 1) 0"
  by (simp_all add: loopRideTop_def rideStart_fields)

subsection \<open>The closed ring\<close>

lemma ringStore_fields:
  "isRiding ringStore" "rideProgress ringStore = 3 / 4" "hasChainLift ringStore"
  "rideSpeed ringStore = 1" "isLooped ringStore"
  by (simp_all add: ringStore_def initialState_def)

lemma sin_three_halves: "sin (3 * pi / 2) = - 1"
proof -
  have "sin (3 * pi / 2) = sin (pi + pi / 2)" by (rule arg_cong [where f = sin]) argo
  also have "\<dots> = - 1" by (simp only: sin_add) simp
  finally show ?thesis .
qed

lemma sin_three_quarters: "sin (2 * pi * (3 / 4)) = - 1"
  using sin_three_halves by simp

lemma ring_heights:
  "vy (getPoint ringCurve (3 / 4)) = - (5 / 4)" "vy (getPoint ringCurve 0) = 0"
  "getLength ringCurve = 25 * pi / 6"
  by (simp_all add: ringCurve_def sin_three_halves)

lemma ring_speed: "freeRollingSpeed_spec exampleConfig 1 (5 / 4) (- (5 / 4)) = 7"
proof -
  have "2 * (9.8 * 1) * max 0 (5 / 4 - - (5 / 4)) = (49::real)" by simp
  then show ?thesis
    unfolding freeRollingSpeed_spec_def by (simp add: exampleConfig_def sqrt_49)
qed

lemma ringTable_nonempty: "ringTable \<noteq> []"
  by (simp add: ringTable_def)

lemma sample_ring:
  assumes "0 \<le> p" and "p \<le> 0.9999"
  shows "sampleHybridTrack p ringTable ringCurve
           = Finite (Some \<lparr> point = getPoint ringCurve p,
                            tangent = normalize (getTangent ringCurve p),
                            sup = worldUpFor (normalize (getTangent ringCurve p)),
                            inLoop = False \<rparr>)"
proof -
  have c: "clampProgress p = p" using assms by (simp add: clampProgress_def)
  have f: "findSection p ringTable = hd ringTable"
    by (simp add: findSection_def ringTable_def split: option.splits)
  show ?thesis
    unfolding sampleHybridTrack_def Let_def c f
    by (simp add: ringTable_def js_div_def)
qed

lemma js_rem_five_quarters: "js_rem (5 / 4) 1 = 1 / 4"
  by (simp add: js_rem_def js_trunc_def)

lemma js_rem_thirteen_quarters: "js_rem (13 / 4) 1 = 1 / 4"
  by (simp add: js_rem_def js_trunc_def)

subsection \<open>Transport on the examples\<close>




lemma sample_late:
  "sampleHybridTrack (17 / 20) loopTable lineCurve
     = Finite (Some \<lparr> point = Vector3 (7 / 10) 0 0, tangent = Vector3 1 0 0,
                      sup = Vector3 0 1 0, inLoop = False \<rparr>)"
  using sample_spline_section [of "17 / 20"] by simp


section \<open>The properties\<close>

subsection \<open>C1: the speed of a free-rolling tick\<close>




subsection \<open>C2: reaching the end of the track\<close>

text \<open>
  C2. On a tick of a ride in progress whose advanced progress \<open>np\<close> is 1 or more: on an
  open track the result of the tick is \<open>stopRide\<close> of the store (mode build, not riding,
  progress 0), so the progress does not wrap; on a closed track the new progress is
  \<open>np % 1\<close>, which is \<open>np\<close> minus its integer part and lies in [0, 1), and
  \<open>maxHeightReached\<close> is the height of the curve at progress 0 when the chain lift is on
  (and what the speed branch left otherwise). This holds for the spline camera and for the
  hybrid camera; the hybrid camera's tick on a closed track has a result whenever the samples
  at the new and at the last progress are finite.
\<close>

theorem ride_end_or_wrap:
  "(isRiding st \<and> getLength curve \<noteq> 0
      \<and> rideSpeedStep cfg firstPeak st (vy (getPoint curve (rideProgress st)))
           (maxHeightReached refs) = Finite (speed, mh)
      \<and> np = rideProgress st + speed * delta / getLength curve \<and> 1 \<le> np
    \<longrightarrow> (if isLooped st
          then useFrame_RideCamera cfg firstPeak (Some curve) delta (st, refs)
                 = Finite (rideCameraMove curve (js_rem np 1)
                     (if hasChainLift st then vy (getPoint curve 0) else mh) (st, refs))
               \<and> rideProgress (fst (rideCameraMove curve (js_rem np 1)
                     (if hasChainLift st then vy (getPoint curve 0) else mh) (st, refs)))
                   = js_rem np 1
               \<and> maxHeightReached (snd (rideCameraMove curve (js_rem np 1)
                     (if hasChainLift st then vy (getPoint curve 0) else mh) (st, refs)))
                   = (if hasChainLift st then vy (getPoint curve 0) else mh)
          else useFrame_RideCamera cfg firstPeak (Some curve) delta (st, refs)
                 = Finite (stopRide st, refs\<lparr>maxHeightReached := mh\<rparr>)))
   \<and> (isRiding st \<and> secs \<noteq> [] \<and> totalArcLength \<noteq> 0
      \<and> sampleHybridTrack (rideProgress st) secs curve = Finite (Some cs)
      \<and> hybridSpeedStep firstPeak st (vy (point cs)) (maxHeightReached hrefs) = (hspeed, hmh)
      \<and> hnp = rideProgress st + hspeed * delta / totalArcLength \<and> 1 \<le> hnp
    \<longrightarrow> (if isLooped st
          then useFrame_hybrid firstPeak secs totalArcLength (Some curve) delta (st, hrefs)
                 = hybridCameraMove secs curve (js_rem hnp 1)
                     (if hasChainLift st then vy (getPoint curve 0) else hmh) (st, hrefs)
               \<and> (\<forall>r. hybridCameraMove secs curve (js_rem hnp 1)
                          (if hasChainLift st then vy (getPoint curve 0) else hmh) (st, hrefs)
                        = Finite r
                      \<longrightarrow> rideProgress (fst r) = js_rem hnp 1
                          \<and> maxHeightReached (snd r)
                              = (if hasChainLift st then vy (getPoint curve 0) else hmh))
               \<and> (sampleHybridTrack (js_rem hnp 1) secs curve \<noteq> NotFinite
                    \<and> sampleHybridTrack (lastProgress hrefs) secs curve \<noteq> NotFinite
                  \<longrightarrow> (\<exists>r. hybridCameraMove secs curve (js_rem hnp 1)
                          (if hasChainLift st then vy (getPoint curve 0) else hmh) (st, hrefs)
                        = Finite r))
          else useFrame_hybrid firstPeak secs totalArcLength (Some curve) delta (st, hrefs)
                 = Finite (stopRide st, hrefs\<lparr>maxHeightReached := hmh\<rparr>)))
   \<and> (1 \<le> a \<longrightarrow> js_rem a 1 = a - of_int \<lfloor>a\<rfloor> \<and> 0 \<le> js_rem a 1 \<and> js_rem a 1 < 1)
   \<and> stopRide st = st\<lparr>mode := build, isRiding := False, rideProgress := 0\<rparr>"
proof (intro conjI impI)
  assume a: "isRiding st \<and> getLength curve \<noteq> 0
      \<and> rideSpeedStep cfg firstPeak st (vy (getPoint curve (rideProgress st)))
           (maxHeightReached refs) = Finite (speed, mh)
      \<and> np = rideProgress st + speed * delta / getLength curve \<and> 1 \<le> np"
  then show "if isLooped st
      then useFrame_RideCamera cfg firstPeak (Some curve) delta (st, refs)
             = Finite (rideCameraMove curve (js_rem np 1)
                 (if hasChainLift st then vy (getPoint curve 0) else mh) (st, refs))
           \<and> rideProgress (fst (rideCameraMove curve (js_rem np 1)
                 (if hasChainLift st then vy (getPoint curve 0) else mh) (st, refs)))
               = js_rem np 1
           \<and> maxHeightReached (snd (rideCameraMove curve (js_rem np 1)
                 (if hasChainLift st then vy (getPoint curve 0) else mh) (st, refs)))
               = (if hasChainLift st then vy (getPoint curve 0) else mh)
      else useFrame_RideCamera cfg firstPeak (Some curve) delta (st, refs)
             = Finite (stopRide st, refs\<lparr>maxHeightReached := mh\<rparr>)"
    using useFrame_RideCamera_unfold [of st cfg firstPeak curve refs speed mh delta]
      rideCameraMove_fields
    by (simp add: Let_def)
next
  assume a: "isRiding st \<and> secs \<noteq> [] \<and> totalArcLength \<noteq> 0
      \<and> sampleHybridTrack (rideProgress st) secs curve = Finite (Some cs)
      \<and> hybridSpeedStep firstPeak st (vy (point cs)) (maxHeightReached hrefs) = (hspeed, hmh)
      \<and> hnp = rideProgress st + hspeed * delta / totalArcLength \<and> 1 \<le> hnp"
  let ?m = "if hasChainLift st then vy (getPoint curve 0) else hmh"
  have u: "useFrame_hybrid firstPeak secs totalArcLength (Some curve) delta (st, hrefs)
      = (if isLooped st then hybridCameraMove secs curve (js_rem hnp 1) ?m (st, hrefs)
         else Finite (stopRide st, hrefs\<lparr>maxHeightReached := hmh\<rparr>))"
    using a useFrame_hybrid_unfold [of st secs curve cs firstPeak hrefs hspeed hmh totalArcLength delta]
    by (simp add: Let_def)
  show "if isLooped st
      then useFrame_hybrid firstPeak secs totalArcLength (Some curve) delta (st, hrefs)
             = hybridCameraMove secs curve (js_rem hnp 1) ?m (st, hrefs)
           \<and> (\<forall>r. hybridCameraMove secs curve (js_rem hnp 1) ?m (st, hrefs) = Finite r
                  \<longrightarrow> rideProgress (fst r) = js_rem hnp 1 \<and> maxHeightReached (snd r) = ?m)
           \<and> (sampleHybridTrack (js_rem hnp 1) secs curve \<noteq> NotFinite
                \<and> sampleHybridTrack (lastProgress hrefs) secs curve \<noteq> NotFinite
              \<longrightarrow> (\<exists>r. hybridCameraMove secs curve (js_rem hnp 1) ?m (st, hrefs) = Finite r))
      else useFrame_hybrid firstPeak secs totalArcLength (Some curve) delta (st, hrefs)
             = Finite (stopRide st, hrefs\<lparr>maxHeightReached := hmh\<rparr>)"
    using u hybridCameraMove_fields [of secs curve "js_rem hnp 1" ?m st hrefs]
      hybridCameraMove_finite [of "js_rem hnp 1" secs curve hrefs ?m st]
    by (cases "isLooped st") auto
next
  assume "1 \<le> a"
  then show "js_rem a 1 = a - of_int \<lfloor>a\<rfloor>" "0 \<le> js_rem a 1" "js_rem a 1 < 1"
    using js_rem_one [of a] by simp_all
next
  show "stopRide st = st\<lparr>mode := build, isRiding := False, rideProgress := 0\<rparr>"
    by (simp add: stopRide_def)
qed

text \<open>
  Four ticks: each camera stopping at the end of an open track, and each camera wrapping
  from progress 3/4 to 1/4 on the closed ring, where the peak 5/4 of the lap is replaced by
  the height 0 of the start.
\<close>

theorem ride_end_or_wrap_witness:
  "isRiding (fst slopeRide) \<and> getLength slopeCurve \<noteq> 0
   \<and> rideSpeedStep exampleConfig (1 / 5) (fst slopeRide)
        (vy (getPoint slopeCurve (rideProgress (fst slopeRide)))) (maxHeightReached (snd slopeRide))
       = Finite (7, 5)
   \<and> 1 \<le> rideProgress (fst slopeRide) + 7 * (13 / 10) / getLength slopeCurve
   \<and> \<not> isLooped (fst slopeRide)
   \<and> useFrame_RideCamera exampleConfig (1 / 5) (Some slopeCurve) (13 / 10) slopeRide
       = Finite (stopRide (fst slopeRide), (snd slopeRide)\<lparr>maxHeightReached := 5\<rparr>)
   \<and> mode (stopRide (fst slopeRide)) = build \<and> \<not> isRiding (stopRide (fst slopeRide))
   \<and> rideProgress (stopRide (fst slopeRide)) = 0
   \<and> isRiding (fst ringRide) \<and> isLooped (fst ringRide) \<and> hasChainLift (fst ringRide)
   \<and> maxHeightReached (snd ringRide) = 5 / 4
   \<and> rideSpeedStep exampleConfig (1 / 4) (fst ringRide)
        (vy (getPoint ringCurve (rideProgress (fst ringRide)))) (maxHeightReached (snd ringRide))
       = Finite (7, 5 / 4)
   \<and> rideProgress (fst ringRide) + 7 * (25 * pi / 84) / getLength ringCurve = 5 / 4
   \<and> useFrame_RideCamera exampleConfig (1 / 4) (Some ringCurve) (25 * pi / 84) ringRide
       = Finite (rideCameraMove ringCurve (1 / 4) 0 ringRide)
   \<and> rideProgress (fst (rideCameraMove ringCurve (1 / 4) 0 ringRide)) = 1 / 4
   \<and> maxHeightReached (snd (rideCameraMove ringCurve (1 / 4) 0 ringRide)) = 0
   \<and> isRiding (fst loopRideTop) \<and> \<not> isLooped (fst loopRideTop)
   \<and> 1 \<le> rideProgress (fst loopRideTop) + 12 * (1 / 2) / 2
   \<and> useFrame_hybrid (1 / 5) loopTable 2 (Some lineCurve) (1 / 2) loopRideTop
       = Finite (stopRide (fst loopRideTop), (snd loopRideTop)\<lparr>maxHeightReached := 0\<rparr>)
   \<and> isRiding (fst ringRide_hybrid) \<and> isLooped (fst ringRide_hybrid)
   \<and> maxHeightReached (snd ringRide_hybrid) = 5 / 4
   \<and> rideProgress (fst ringRide_hybrid) + 12 * (25 * pi / 144) / (25 * pi / 6) = 5 / 4
   \<and> (\<exists>r. useFrame_hybrid (1 / 4) ringTable (25 * pi / 6) (Some ringCurve) (25 * pi / 144)
              ringRide_hybrid = Finite r
          \<and> rideProgress (fst r) = 1 / 4 \<and> maxHeightReached (snd r) = 0)"
proof -
  have g: "0 \<le> GRAVITY_SCALE exampleConfig" by (simp add: exampleConfig_def)
  have one: "1 \<le> (5 / 4 :: real)" by simp
  \<comment> \<open>the spline camera on the open descent\<close>
  have a1: "isRiding (fst slopeRide)" "getLength slopeCurve \<noteq> 0" "\<not> isLooped (fst slopeRide)"
    by (simp_all add: slopeRide_fields slopeCurve_length)
  have a2: "rideSpeedStep exampleConfig (1 / 5) (fst slopeRide)
        (vy (getPoint slopeCurve (rideProgress (fst slopeRide)))) (maxHeightReached (snd slopeRide))
       = Finite (7, 5)"
    using rideSpeedStep_free [of "fst slopeRide" "1 / 5" exampleConfig "5 / 2" 5] g
    by (simp add: slopeRide_fields slopeCurve_point slope_speed)
  have a3: "1 \<le> rideProgress (fst slopeRide) + 7 * (13 / 10) / getLength slopeCurve"
    by (simp add: slopeRide_fields slopeCurve_length)
  note w1 = ride_end_or_wrap [where st = "fst slopeRide" and curve = slopeCurve
      and cfg = exampleConfig and firstPeak = "1 / 5" and refs = "snd slopeRide" and speed = 7
      and mh = 5 and delta = "13 / 10"
      and np = "rideProgress (fst slopeRide) + 7 * (13 / 10) / getLength slopeCurve"]
  have a4: "useFrame_RideCamera exampleConfig (1 / 5) (Some slopeCurve) (13 / 10) slopeRide
       = Finite (stopRide (fst slopeRide), (snd slopeRide)\<lparr>maxHeightReached := 5\<rparr>)"
    using w1 [THEN conjunct1, THEN mp, OF conjI [OF a1(1) conjI [OF a1(2) conjI [OF a2 conjI [OF refl a3]]]]]
      a1(3)
    by simp
  have a5: "mode (stopRide (fst slopeRide)) = build \<and> \<not> isRiding (stopRide (fst slopeRide))
      \<and> rideProgress (stopRide (fst slopeRide)) = 0"
    by (simp add: stopRide_def)
  \<comment> \<open>the spline camera on the closed ring\<close>
  have b1: "isRiding (fst ringRide)" "isLooped (fst ringRide)" "hasChainLift (fst ringRide)"
      "maxHeightReached (snd ringRide) = 5 / 4" "getLength ringCurve \<noteq> 0"
    by (simp_all add: ringRide_def ringStore_fields ring_heights)
  have b2: "rideSpeedStep exampleConfig (1 / 4) (fst ringRide)
        (vy (getPoint ringCurve (rideProgress (fst ringRide)))) (maxHeightReached (snd ringRide))
       = Finite (7, 5 / 4)"
    using rideSpeedStep_free [of "fst ringRide" "1 / 4" exampleConfig "- (5 / 4)" "5 / 4"] g
    by (simp add: ringRide_def ringStore_fields ring_heights ring_speed)
  have b3: "rideProgress (fst ringRide) + 7 * (25 * pi / 84) / getLength ringCurve = 5 / 4"
    by (simp add: ringRide_def ringStore_fields ring_heights)
  note w2 = ride_end_or_wrap [where st = "fst ringRide" and curve = ringCurve
      and cfg = exampleConfig and firstPeak = "1 / 4" and refs = "snd ringRide" and speed = 7
      and mh = "5 / 4" and delta = "25 * pi / 84" and np = "5 / 4"]
  have b4: "useFrame_RideCamera exampleConfig (1 / 4) (Some ringCurve) (25 * pi / 84) ringRide
       = Finite (rideCameraMove ringCurve (1 / 4) 0 ringRide)
     \<and> rideProgress (fst (rideCameraMove ringCurve (1 / 4) 0 ringRide)) = 1 / 4
     \<and> maxHeightReached (snd (rideCameraMove ringCurve (1 / 4) 0 ringRide)) = 0"
    using w2 [THEN conjunct1, THEN mp,
        OF conjI [OF b1(1) conjI [OF b1(5) conjI [OF b2 conjI [OF b3 [symmetric] one]]]]]
      b1(2) b1(3)
    by (simp add: js_rem_five_quarters ring_heights(2))
  \<comment> \<open>the hybrid camera on the open track with the loop\<close>
  have c1: "isRiding (fst loopRideTop)" "\<not> isLooped (fst loopRideTop)"
    by (simp_all add: loopRideTop_fields)
  have c2: "sampleHybridTrack (rideProgress (fst loopRideTop)) loopTable lineCurve
      = Finite (Some \<lparr> point = Vector3 0 (1 / pi) 0, tangent = Vector3 (- 1) 0 0,
                      sup = Vector3 0 (- 1) 0, inLoop = True \<rparr>)"
    by (simp add: loopRideTop_fields sample_top)
  have c3: "hybridSpeedStep (1 / 5) (fst loopRideTop)
      (vy (point \<lparr> point = Vector3 0 (1 / pi) 0, tangent = Vector3 (- 1) 0 0,
                      sup = Vector3 0 (- 1) 0, inLoop = True \<rparr>))
      (maxHeightReached (snd loopRideTop)) = (12, 0)"
    by (simp add: hybridSpeedStep_def loopRideTop_fields Let_def)
  have c4: "1 \<le> rideProgress (fst loopRideTop) + 12 * (1 / 2) / 2"
    by (simp add: loopRideTop_fields)
  have two: "(2::real) \<noteq> 0" by simp
  note w3 = ride_end_or_wrap [where st = "fst loopRideTop" and secs = loopTable
      and totalArcLength = 2 and curve = lineCurve and firstPeak = "1 / 5"
      and cs = "\<lparr> point = Vector3 0 (1 / pi) 0, tangent = Vector3 (- 1) 0 0,
                    sup = Vector3 0 (- 1) 0, inLoop = True \<rparr>"
      and hrefs = "snd loopRideTop" and hspeed = 12 and hmh = 0 and delta = "1 / 2"
      and hnp = "rideProgress (fst loopRideTop) + 12 * (1 / 2) / 2"]
  have c5: "useFrame_hybrid (1 / 5) loopTable 2 (Some lineCurve) (1 / 2) loopRideTop
       = Finite (stopRide (fst loopRideTop), (snd loopRideTop)\<lparr>maxHeightReached := 0\<rparr>)"
    using w3 [THEN conjunct2, THEN conjunct1, THEN mp,
        OF conjI [OF c1(1) conjI [OF loopTable_nonempty conjI [OF two conjI [OF c2
             conjI [OF c3 conjI [OF refl c4]]]]]]]
      c1(2)
    by simp
  \<comment> \<open>the hybrid camera on the closed ring\<close>
  let ?cs = "\<lparr> point = getPoint ringCurve (3 / 4),
                tangent = normalize (getTangent ringCurve (3 / 4)),
                sup = worldUpFor (normalize (getTangent ringCurve (3 / 4))),
                inLoop = False \<rparr>"
  have d1: "isRiding (fst ringRide_hybrid)" "isLooped (fst ringRide_hybrid)"
      "hasChainLift (fst ringRide_hybrid)" "maxHeightReached (snd ringRide_hybrid) = 5 / 4"
      "lastProgress (snd ringRide_hybrid) = 3 / 4" "rideProgress (fst ringRide_hybrid) = 3 / 4"
    by (simp_all add: ringRide_hybrid_def ringStore_fields)
  have d2: "sampleHybridTrack (rideProgress (fst ringRide_hybrid)) ringTable ringCurve
      = Finite (Some ?cs)"
    using sample_ring [of "3 / 4"] by (simp add: d1)
  have d3: "hybridSpeedStep (1 / 4) (fst ringRide_hybrid) (vy (point ?cs))
      (maxHeightReached (snd ringRide_hybrid)) = (12, 5 / 4)"
    by (simp add: hybridSpeedStep_def ringRide_hybrid_def ringStore_fields Let_def)
  have d4: "rideProgress (fst ringRide_hybrid) + 12 * (25 * pi / 144) / (25 * pi / 6) = 5 / 4"
    by (simp add: d1)
  have d5: "sampleHybridTrack (1 / 4) ringTable ringCurve \<noteq> NotFinite"
    using sample_ring [of "1 / 4"] by simp
  have d6: "sampleHybridTrack (lastProgress (snd ringRide_hybrid)) ringTable ringCurve \<noteq> NotFinite"
    using sample_ring [of "3 / 4"] by (simp add: d1)
  have pi0: "25 * pi / 6 \<noteq> 0" by simp
  note w4 = ride_end_or_wrap [where st = "fst ringRide_hybrid" and secs = ringTable
      and totalArcLength = "25 * pi / 6" and curve = ringCurve and firstPeak = "1 / 4"
      and cs = ?cs and hrefs = "snd ringRide_hybrid" and hspeed = 12 and hmh = "5 / 4"
      and delta = "25 * pi / 144" and hnp = "5 / 4"]
  note r4 = w4 [THEN conjunct2, THEN conjunct1, THEN mp,
        OF conjI [OF d1(1) conjI [OF ringTable_nonempty conjI [OF pi0 conjI [OF d2
             conjI [OF d3 conjI [OF d4 [symmetric] one]]]]]]]
  have d7: "useFrame_hybrid (1 / 4) ringTable (25 * pi / 6) (Some ringCurve) (25 * pi / 144)
              ringRide_hybrid
        = hybridCameraMove ringTable ringCurve (1 / 4) 0 ringRide_hybrid
      \<and> (\<forall>r. hybridCameraMove ringTable ringCurve (1 / 4) 0 ringRide_hybrid = Finite r
             \<longrightarrow> rideProgress (fst r) = 1 / 4 \<and> maxHeightReached (snd r) = 0)
      \<and> (\<exists>r. hybridCameraMove ringTable ringCurve (1 / 4) 0 ringRide_hybrid = Finite r)"
    using r4 d1(2) d1(3) d5 d6 by (simp add: js_rem_five_quarters ring_heights(2))
  then obtain r where
      "hybridCameraMove ringTable ringCurve (1 / 4) 0 ringRide_hybrid = Finite r" by blast
  then have d8: "\<exists>r. useFrame_hybrid (1 / 4) ringTable (25 * pi / 6) (Some ringCurve)
              (25 * pi / 144) ringRide_hybrid = Finite r
          \<and> rideProgress (fst r) = 1 / 4 \<and> maxHeightReached (snd r) = 0"
    using d7 by auto
  show ?thesis
    using a1 a2 a3 a4 a5 b1 b2 b3 b4 c1 c4 c5 d1 d4 d8 by (elim conjE, intro conjI) assumption+
qed

subsection \<open>C3: the section table partitions the progress range\<close>

text \<open>
  C3, for a track whose total arc length is not zero. A table built from at least two track
  points whose accumulated arc length is not zero is not empty; after the normalisation its
  first section starts at progress 0, its last section ends at progress 1, each section
  starts where the one before it ends, and the arc lengths of its sections add up to the
  total arc length that is the divisor of the normalisation. When no loop has a negative
  radius, every section starts no later than it ends.
\<close>

theorem section_table_partition:
  assumes "2 \<le> length points"
    and "accumulatedLength (buildRaw (catmullRom (map position points) looped) points segs looped) \<noteq> 0"
  shows "\<exists>secs totalLen.
           buildSections catmullRom points segs looped = Finite (secs, totalLen)
           \<and> totalLen = accumulatedLength (buildRaw (catmullRom (map position points) looped) points segs looped)
           \<and> secs \<noteq> []
           \<and> startProgress (hd secs) = 0
           \<and> endProgress (last secs) = 1
           \<and> contiguous secs
           \<and> sum_list (map arcLength secs) = totalLen
           \<and> ((\<forall>seg \<in> set segs. 0 \<le> seg_radius seg)
                \<longrightarrow> (\<forall>s \<in> set secs. startProgress s \<le> endProgress s))"
proof -
  let ?raw = "buildRaw (catmullRom (map position points) looped) points segs looped"
  let ?T = "accumulatedLength ?raw"
  have ne: "sections ?raw \<noteq> []" using buildRaw_nonempty [OF assms(1)] .
  have sum: "?T = sum_list (map arcLength (sections ?raw))" using buildRaw_sum .
  obtain secs where n: "normalizeSections ?T 0 (sections ?raw) = Finite secs"
      and len: "length secs = length (sections ?raw)"
      and arcs: "map arcLength secs = map arcLength (sections ?raw)"
      and first: "startProgress (hd secs) = 0 / ?T"
      and final: "endProgress (last secs) = (0 + sum_list (map arcLength (sections ?raw))) / ?T"
      and cont: "contiguous secs"
    using normalizeSections_props [OF assms(2), of 0 "sections ?raw"] ne by blast
  have b: "buildSections catmullRom points segs looped = Finite (secs, ?T)"
    using assms(1) n by (simp add: buildSections_def getTrackCurve_def Let_def)
  have ne': "secs \<noteq> []" using len ne by auto
  have one: "endProgress (last secs) = 1" using final sum assms(2) by simp
  have total: "sum_list (map arcLength secs) = ?T" using arcs sum by simp
  have mono: "\<forall>s \<in> set secs. startProgress s \<le> endProgress s"
    if r: "\<forall>seg \<in> set segs. 0 \<le> seg_radius seg"
  proof -
    have a: "\<forall>s \<in> set (sections ?raw). 0 \<le> arcLength s" using buildRaw_arcs [OF r] .
    then have "0 \<le> ?T" using sum sum_list_nonneg_real [of "sections ?raw" arcLength] by simp
    then have "0 < ?T" using assms(2) by simp
    then show ?thesis using normalizeSections_monotone [OF _ a n] by blast
  qed
  show ?thesis using b ne' first one cont total mono by simp
qed

text \<open>
  The straight track with the loop: a loop section over [0, 1/2] and a spline section over
  [1/2, 1], of arc length 1 each.
\<close>

theorem section_table_partition_witness:
  "2 \<le> length (trackPoints (snd lineTrack))
   \<and> accumulatedLength (buildRaw (chordCurve (map position (trackPoints (snd lineTrack))) False)
        (trackPoints (snd lineTrack)) [unitLoop] False) \<noteq> 0
   \<and> 0 \<le> seg_radius unitLoop
   \<and> buildSections chordCurve (trackPoints (snd lineTrack)) [unitLoop] False = Finite (loopTable, 2)
   \<and> startProgress (hd loopTable) = 0 \<and> endProgress (last loopTable) = 1
   \<and> contiguous loopTable \<and> sum_list (map arcLength loopTable) = 2
   \<and> list_all (\<lambda>s. startProgress s \<le> endProgress s) loopTable"
proof -
  have c: "chordCurve (map position (trackPoints (snd lineTrack))) False = lineCurve"
    by (simp add: lineTrack_eq lineCurve_def)
  have n: "2 \<le> length (trackPoints (snd lineTrack))" by (simp add: lineTrack_eq)
  have a: "accumulatedLength (buildRaw (chordCurve (map position (trackPoints (snd lineTrack))) False)
        (trackPoints (snd lineTrack)) [unitLoop] False) \<noteq> 0"
    by (simp add: c buildRaw_line)
  have r: "0 \<le> seg_radius unitLoop" by (simp add: unitLoop_def)
  show ?thesis
    using n a r buildSections_line
      section_table_partition [where points = "trackPoints (snd lineTrack)"
        and catmullRom = chordCurve and looped = False and segs = "[unitLoop]"]
    by (auto simp: list_all_iff)
qed

text \<open>
  Two track points at the same place and no loop: the only section has arc length 0, the
  total is 0, and the normalisation divides 0 by 0. The progress fields of the table are not
  numbers, so the first section does not start at 0 and the last does not end at 1.
\<close>

theorem section_table_partition_counterexample:
  "2 \<le> length (trackPoints (snd pointTrack))
   \<and> buildSections chordCurve (trackPoints (snd pointTrack)) [] False = NotFinite"
proof -
  have c: "getTrackCurve chordCurve (trackPoints (snd pointTrack)) False = Some dotCurve"
    by (simp add: getTrackCurve_def pointTrack_eq dotCurve_def)
  have n: "length (trackPoints (snd pointTrack)) = 2" by (simp add: pointTrack_eq)
  obtain s rest where r: "sections (buildRaw dotCurve (trackPoints (snd pointTrack)) [] False) = s # rest"
    using buildRaw_nonempty [of "trackPoints (snd pointTrack)" dotCurve "[]" False] n
    by (cases "sections (buildRaw dotCurve (trackPoints (snd pointTrack)) [] False)") auto
  show ?thesis
    unfolding buildSections_def c n
    by (simp add: Let_def buildRaw_point_length r js_div_def)
qed

subsection \<open>C4: startRide\<close>

text \<open>
  C4. \<open>startRide\<close> leaves a state with fewer than two track points as it is; on a state
  with two or more track points it sets the mode to ride, \<open>isRiding\<close> to true and the
  progress to 0, and changes nothing else, the track points included.
\<close>

theorem startRide_precondition:
  "(length (trackPoints s) < 2 \<longrightarrow> startRide s = s) \<and>
   (length (trackPoints s) \<ge> 2 \<longrightarrow>
      startRide s = s\<lparr>mode := ride, isRiding := True, rideProgress := 0\<rparr>
      \<and> mode (startRide s) = ride \<and> isRiding (startRide s) \<and> rideProgress (startRide s) = 0
      \<and> trackPoints (startRide s) = trackPoints s)"
  by (simp add: startRide_def)

theorem startRide_precondition_witness:
  "length (trackPoints initialState) < 2 \<and> startRide initialState = initialState
   \<and> length (trackPoints (snd lineTrack)) \<ge> 2
   \<and> mode (startRide (snd lineTrack)) = ride \<and> isRiding (startRide (snd lineTrack))
   \<and> rideProgress (startRide (snd lineTrack)) = 0
   \<and> trackPoints (startRide (snd lineTrack)) = trackPoints (snd lineTrack)"
  using startRide_precondition [of initialState] startRide_precondition [of "snd lineTrack"]
  by (simp add: lineTrack_eq initialState_def)

subsection \<open>C5: the loop sampler at entry, top and exit\<close>

text \<open>
  C5. For a loop frame whose entry forward and entry up are orthonormal, the analytic loop
  sampler returns the entry forward as tangent and the entry up as up at angle 0, the
  negated entry up as up at angle \<open>pi\<close>, and the entry forward and the entry up again at
  angle \<open>2 pi\<close>.
\<close>

theorem loop_sampler_closure:
  assumes "vlength (forward f) = 1" and "vlength (up f) = 1" and "dot (forward f) (up f) = 0"
  shows "tangent (sampleLoopAnalytically f 0) = forward f
         \<and> sup (sampleLoopAnalytically f 0) = up f
         \<and> sup (sampleLoopAnalytically f pi) = negate (up f)
         \<and> tangent (sampleLoopAnalytically f (2 * pi)) = forward f
         \<and> sup (sampleLoopAnalytically f (2 * pi)) = up f"
proof -
  have a: "addScaledVector (addScaledVector zero3 v 1) w 0 = v" for v w
    by (cases v) (simp add: addScaledVector_def zero3_def)
  have b: "addScaledVector (addScaledVector zero3 v 0) w 1 = w" for v w
    by (cases w) (simp add: addScaledVector_def zero3_def)
  have c: "addScaledVector (addScaledVector zero3 v 0) w (- 1) = negate w" for v w
    by (cases w) (simp add: addScaledVector_def zero3_def negate_def)
  have n: "normalize (negate (up f)) = negate (up f)"
    using assms(2) by (simp add: normalize_unit vlength_negate)
  show ?thesis
    using assms(1,2) n by (simp add: sampleLoopAnalytically_def a b c normalize_unit)
qed

theorem loop_sampler_closure_witness:
  "vlength (forward unitFrame) = 1 \<and> vlength (up unitFrame) = 1
   \<and> dot (forward unitFrame) (up unitFrame) = 0
   \<and> tangent (sampleLoopAnalytically unitFrame 0) = Vector3 1 0 0
   \<and> sup (sampleLoopAnalytically unitFrame 0) = Vector3 0 1 0
   \<and> sup (sampleLoopAnalytically unitFrame pi) = Vector3 0 (- 1) 0
   \<and> tangent (sampleLoopAnalytically unitFrame (2 * pi)) = Vector3 1 0 0
   \<and> sup (sampleLoopAnalytically unitFrame (2 * pi)) = Vector3 0 1 0"
proof -
  have h: "vlength (forward unitFrame) = 1" "vlength (up unitFrame) = 1"
      "dot (forward unitFrame) (up unitFrame) = 0"
    by (simp_all add: unitFrame_def up_axis_unit dot_def)
  show ?thesis
    using h loop_sampler_closure [OF h]
    by (simp add: unitFrame_def negate_def)
qed

subsection \<open>C6: the transported up vector\<close>




subsection \<open>C7: the sampler clamps the progress\<close>



subsection \<open>C8: the eased loop parameter\<close>

text \<open>
  C8. The eased angle \<open>theta (t) = 2 pi (t - sin (2 pi t) / (2 pi))\<close> of the
  vertical-loop sampler is 0 at \<open>t = 0\<close> and \<open>2 pi\<close> at \<open>t = 1\<close>; the sampler's
  \<open>dThetaDt\<close>, \<open>2 pi (1 - cos (2 pi t))\<close>, is its derivative at every \<open>t\<close> and is
  zero at \<open>t = 0\<close> and at \<open>t = 1\<close>.
\<close>

theorem eased_theta_endpoints:
  "easedTheta 0 = 0 \<and> easedTheta 1 = 2 * pi \<and> dThetaDt 0 = 0 \<and> dThetaDt 1 = 0
   \<and> (\<forall>t. (easedTheta has_real_derivative dThetaDt t) (at t))"
proof -
  have d: "(easedTheta has_real_derivative dThetaDt t) (at t)" for t
    unfolding easedTheta_def [abs_def] dThetaDt_def
    by (auto intro!: derivative_eq_intros simp: field_simps)
  show ?thesis
    using d by (simp add: easedTheta_def dThetaDt_def)
qed

subsection \<open>C9: createLoopAtPoint on an unknown id\<close>

text \<open>
  C9. When no track point has the given id, \<open>createLoopAtPoint\<close> leaves the state and
  the point counter as they are, in both versions of the action; the second version raises
  no error.
\<close>

theorem createLoopAtPoint_unknown_id:
  assumes "\<forall>p \<in> set (trackPoints s). point_id p \<noteq> ident"
  shows "createLoopAtPoint ident (c, s) = (c, s)
         \<and> createLoopAtPoint_helix cfg ident (c, s) = Inr (c, s)"
  using assms by (simp add: createLoopAtPoint_def createLoopAtPoint_helix_def findIndex_None)

theorem createLoopAtPoint_unknown_id_witness:
  "point_id (trackPoints (snd lineTrack) ! 0) \<noteq> ''point-7''
   \<and> point_id (trackPoints (snd lineTrack) ! 1) \<noteq> ''point-7''
   \<and> length (trackPoints (snd lineTrack)) = 2
   \<and> createLoopAtPoint ''point-7'' lineTrack = lineTrack
   \<and> createLoopAtPoint_helix exampleConfig ''point-7'' lineTrack = Inr lineTrack"
  using createLoopAtPoint_unknown_id [of "snd lineTrack" "''point-7''" "fst lineTrack" exampleConfig]
  by (simp add: lineTrack_eq)

subsection \<open>C10: the frame of a sample\<close>




end
